theory Spec2Isabelle
  imports Complex_Main "HOL-Library.AList" "HOL-Library.Multiset"
begin

section \<open>Python strings\<close>

text \<open>
  A Python \<open>str\<close> is modelled as an Isabelle \<open>string\<close> whose characters are ASCII code
  points. The string methods the loaders call are written out for that range: a
  character outside the ASCII letters is uncased, and the white space of \<open>str.strip\<close> is
  what \<open>str.isspace\<close> accepts below code point 128.
\<close>

definition py_isspace :: "char \<Rightarrow> bool" where
  "py_isspace c =
     (c \<in> set [CHR 0x09, CHR 0x0A, CHR 0x0B, CHR 0x0C, CHR 0x0D,
                CHR 0x1C, CHR 0x1D, CHR 0x1E, CHR 0x1F, CHR 0x20])"

definition py_strip :: "string \<Rightarrow> string" where
  \<comment> \<open>\<open>s.strip()\<close>\<close>
  "py_strip s = rev (dropWhile py_isspace (rev (dropWhile py_isspace s)))"

definition py_rstrip :: "string \<Rightarrow> string \<Rightarrow> string" where
  \<comment> \<open>\<open>s.rstrip(chars)\<close>: \<open>chars\<close> is a set of characters, removed from the right end
      for as long as the last character is one of them.\<close>
  "py_rstrip chars s = rev (dropWhile (\<lambda>c. c \<in> set chars) (rev s))"

definition py_split_first :: "string \<Rightarrow> string" where
  \<comment> \<open>\<open>s.split(" ")[0]\<close>: the text before the first space (all of \<open>s\<close> without one).\<close>
  "py_split_first s = takeWhile (\<lambda>c. c \<noteq> CHR 0x20) s"

definition is_upper :: "char \<Rightarrow> bool" where
  "is_upper c = (65 \<le> (of_char c :: nat) \<and> (of_char c :: nat) \<le> 90)"

definition is_lower :: "char \<Rightarrow> bool" where
  "is_lower c = (97 \<le> (of_char c :: nat) \<and> (of_char c :: nat) \<le> 122)"

definition is_cased :: "char \<Rightarrow> bool" where
  "is_cased c = (is_upper c \<or> is_lower c)"

definition to_lower :: "char \<Rightarrow> char" where
  "to_lower c = (if is_upper c then char_of ((of_char c :: nat) + 32) else c)"

definition to_upper :: "char \<Rightarrow> char" where
  "to_upper c = (if is_lower c then char_of ((of_char c :: nat) - 32) else c)"

fun title_from :: "bool \<Rightarrow> string \<Rightarrow> string" where
  \<comment> \<open>The loop of \<open>str.title\<close>; the flag says whether the previous character is cased.\<close>
  "title_from previous_is_cased [] = []"
| "title_from previous_is_cased (c # cs) =
     (if previous_is_cased then to_lower c else to_upper c) # title_from (is_cased c) cs"

definition py_title :: "string \<Rightarrow> string" where
  \<comment> \<open>\<open>s.title()\<close>\<close>
  "py_title s = title_from False s"

definition digit_char :: "nat \<Rightarrow> char" where
  "digit_char d = char_of (48 + d)"

fun nat_digits :: "nat \<Rightarrow> string" where
  "nat_digits n = (if n < 10 then [digit_char n] else nat_digits (n div 10) @ [digit_char (n mod 10)])"

declare nat_digits.simps [simp del]

definition py_str_int :: "int \<Rightarrow> string" where
  \<comment> \<open>\<open>str(i)\<close> of an integer: its decimal digits, after a minus sign when negative.\<close>
  "py_str_int i = (if i < 0 then CHR ''-'' # nat_digits (nat (- i)) else nat_digits (nat i))"

section \<open>Cells, frames and dictionaries\<close>

datatype date = YMD int int int

datatype crs = EPSG nat | OtherCRS string

datatype error = ValueError | DateParseError | KeyError | AttributeError

text \<open>
  A cell of a pandas frame: a missing value (\<open>NaN\<close>, \<open>NaT\<close>, \<open>None\<close>), a text, an integer,
  a floating-point number, a time stamp or a geometry. Floating-point numbers are
  modelled by exact reals. A row of
  a frame gives the cell of every column name; for a column the frame does not have it
  gives \<open>NaN\<close>. A \<open>DataFrame\<close> is the list of its rows in index order; a \<open>GeoDataFrame\<close>
  carries its coordinate reference system as well. A file that cannot be read and a
  column the frame lacks are outside the model.
\<close>

datatype 'g cell = NaN | Str string | Integer int | Number real | Date date | Geom 'g

type_synonym 'g row = "string \<Rightarrow> 'g cell"

type_synonym 'g DataFrame = "'g row list"

record 'g GeoDataFrame =
  rows :: "'g row list"
  crs :: "crs option"

text \<open>
  A Python \<open>dict\<close>: an association list with distinct keys, in insertion order;
  \<open>AList.update\<close> is \<open>d[k] = v\<close> (a new key goes last, an old one keeps its place).
\<close>

type_synonym 'g dict = "('g cell \<times> 'g cell) list"

definition to_dict :: "('g cell \<times> 'g cell) list \<Rightarrow> 'g dict" where
  \<comment> \<open>The dictionary built from key-value pairs in order: a later pair overwrites.\<close>
  "to_dict kvs = fold (\<lambda>(k, v). AList.update k v) kvs []"

definition dict_merge :: "'g dict \<Rightarrow> 'g dict \<Rightarrow> 'g dict" where
  \<comment> \<open>\<open>{**a, **b}\<close>\<close>
  "dict_merge a b = fold (\<lambda>(k, v). AList.update k v) b a"

definition col :: "string \<Rightarrow> 'g DataFrame \<Rightarrow> 'g cell list" where
  \<comment> \<open>\<open>df[c]\<close>\<close>
  "col c df = map (\<lambda>r. r c) df"

definition assign :: "string \<Rightarrow> 'g cell list \<Rightarrow> 'g DataFrame \<Rightarrow> 'g DataFrame" where
  \<comment> \<open>\<open>df[c] = values\<close>, the values aligned with the rows by position.\<close>
  "assign c vs df = map (\<lambda>(r, v). r(c := v)) (zip df vs)"

definition select :: "string list \<Rightarrow> 'g DataFrame \<Rightarrow> 'g DataFrame" where
  \<comment> \<open>\<open>df[[c1, ..., cn]]\<close>\<close>
  "select cs df = map (\<lambda>r c. if c \<in> set cs then r c else NaN) df"

definition drop_columns :: "string list \<Rightarrow> 'g DataFrame \<Rightarrow> 'g DataFrame" where
  \<comment> \<open>\<open>df.drop(columns=cs, errors="ignore")\<close>\<close>
  "drop_columns cs df = map (\<lambda>r c. if c \<in> set cs then NaN else r c) df"

definition rename :: "string \<Rightarrow> string \<Rightarrow> 'g DataFrame \<Rightarrow> 'g DataFrame" where
  \<comment> \<open>\<open>df.rename(columns={old: new})\<close>\<close>
  "rename old new df =
     map (\<lambda>r c. if c = new then r old else if c = old then NaN else r c) df"

definition str_op :: "(string \<Rightarrow> string) \<Rightarrow> 'g cell \<Rightarrow> 'g cell" where
  \<comment> \<open>A method of the \<open>.str\<close> accessor on one cell: missing for anything but a text.\<close>
  "str_op f c = (case c of Str s \<Rightarrow> Str (f s) | _ \<Rightarrow> NaN)"

definition is_text :: "'g cell \<Rightarrow> bool" where
  "is_text c = (case c of Str s \<Rightarrow> True | _ \<Rightarrow> False)"

definition str_accessor :: "(string \<Rightarrow> string) \<Rightarrow> 'g cell list \<Rightarrow> error + 'g cell list" where
  \<comment> \<open>\<open>column.str.f()\<close> on a column as \<open>pd.read_csv\<close> gives it. pandas refuses the
      accessor with an \<open>AttributeError\<close> on a column that is not of text type; \<open>read_csv\<close>
      gives such a column when it has rows and none of them holds a text (all missing or
      all numbers).\<close>
  "str_accessor f cs =
     (if cs = [] \<or> list_ex is_text cs then Inr (map (str_op f) cs) else Inl AttributeError)"

definition map_dict :: "(string \<rightharpoonup> string) \<Rightarrow> 'g cell \<Rightarrow> 'g cell" where
  \<comment> \<open>\<open>Series.map(table)\<close> on one cell: a key the table lacks gives a missing value.\<close>
  "map_dict table c =
     (case c of Str s \<Rightarrow> (case table s of Some v \<Rightarrow> Str v | None \<Rightarrow> NaN) | _ \<Rightarrow> NaN)"

definition fillna :: "'g cell \<Rightarrow> 'g cell \<Rightarrow> 'g cell" where
  \<comment> \<open>\<open>a.fillna(b)\<close> on one cell.\<close>
  "fillna b a = (if a = NaN then b else a)"

definition dropna :: "'g cell list \<Rightarrow> 'g cell list" where
  "dropna cs = filter (\<lambda>c. c \<noteq> NaN) cs"

fun unique :: "'a list \<Rightarrow> 'a list" where
  \<comment> \<open>\<open>Series.unique()\<close>: the values in order of first appearance.\<close>
  "unique [] = []"
| "unique (x # xs) = x # unique (filter (\<lambda>y. y \<noteq> x) xs)"

section \<open>The inputs: library functions, files and configuration\<close>

datatype parsed = Timestamp date | NaT | Unparseable

text \<open>
  The loaders read files and call pandas and geopandas. The model takes them as given:
  what the library functions compute, the frames the readers return (\<open>pd.read_csv\<close>,
  \<open>pd.read_excel(header=2)\<close>, \<open>gpd.read_file\<close>), and the constants of the module \<open>config\<close>.
  The library functions are
  \<^item> the date parsers behind \<open>pd.to_datetime\<close>: \<open>guess_datetime_format\<close> gives the format
    pandas infers from one text (none when it can infer none, and never in pandas 1),
    \<open>strptime\<close> reads a text in a given format, \<open>parse_datetime\<close> reads a text on its own;
  \<^item> \<open>astype_str_missing\<close>, what \<open>.astype(str)\<close> makes of a missing value: the text \<open>nan\<close>
    in pandas 2, a missing value still in pandas 3;
  \<^item> \<open>py_str\<close>, the text \<open>str()\<close> gives for a float that is not a whole number below
    \<open>10^16\<close>, a time stamp or a geometry;
  \<^item> the reprojection of a geometry from one reference system to an EPSG code, the
    area of a geometry and the predicate \<open>intersects\<close>;
  \<^item> \<open>loc_slice\<close>, the positions \<open>df.loc[a:b]\<close> selects in an index.

  Each loader is cached by \<open>lru_cache\<close>; a loader is a function of these inputs alone, so
  the cache does not change what it returns and is left out.
\<close>

record 'g env =
  guess_datetime_format :: "string \<Rightarrow> string option"
  strptime :: "string \<Rightarrow> string \<Rightarrow> parsed"
  parse_datetime :: "string \<Rightarrow> parsed"
  astype_str_missing :: "'g cell"
  py_str :: "'g cell \<Rightarrow> string"
  to_crs :: "crs \<Rightarrow> nat \<Rightarrow> 'g \<Rightarrow> 'g"
  area :: "'g \<Rightarrow> real"
  intersects :: "'g \<Rightarrow> 'g \<Rightarrow> bool"
  loc_slice :: "'g cell list \<Rightarrow> string \<Rightarrow> string \<Rightarrow> (nat \<times> nat) option"
  CAMBRIDGE_CRIME_CSV :: "'g DataFrame"
  BOSTON_CRIME_CSV :: "'g DataFrame"
  SOMERVILLE_CRIME_CSV :: "'g DataFrame"
  BOSTON_POP_XLSM :: "'g DataFrame"
  CAMBRIDGE_SHAPEFILE :: "'g GeoDataFrame"
  BOSTON_SHAPEFILE :: "'g GeoDataFrame"
  SOMERVILLE_SHAPEFILE :: "'g GeoDataFrame"
  MA_CENSUS_BLOCKS :: "'g GeoDataFrame"
  CAMBRIDGE_CRIME_MACROS :: "string \<rightharpoonup> string"
  BOSTON_CRIME_MACROS :: "string \<rightharpoonup> string"
  SOMERVILLE_CRIME_MACROS :: "string \<rightharpoonup> string"
  CAMBRIDGE_NEIGHBORHOOD_NAME_MAP :: "string \<rightharpoonup> string"
  BOSTON_NEIGHBORHOOD_NAME_MAP :: "string \<rightharpoonup> string"
  CAMBRIDGE_POP_2020 :: "'g dict"
  SOMERVILLE_TOTAL_POP_2022 :: int

definition astype_str :: "'g env \<Rightarrow> 'g cell \<Rightarrow> 'g cell" where
  \<comment> \<open>\<open>.astype(str)\<close> on one cell: \<open>str()\<close> of its value. An integer gives its digits, a
      float that is a whole number below \<open>10^16\<close> its digits and \<open>.0\<close>.\<close>
  "astype_str env c =
     (case c of
        Str s \<Rightarrow> Str s
      | NaN \<Rightarrow> astype_str_missing env
      | Integer i \<Rightarrow> Str (py_str_int i)
      | Number x \<Rightarrow>
          (if x = real_of_int \<lfloor>x\<rfloor> \<and> \<bar>x\<bar> < 10 ^ 16 then Str (py_str_int \<lfloor>x\<rfloor> @ ''.0'')
           else Str (py_str env c))
      | _ \<Rightarrow> Str (py_str env c))"

fun first_non_null :: "'g cell list \<Rightarrow> 'g cell" where
  "first_non_null [] = NaN"
| "first_non_null (c # cs) = (if c = NaN then first_non_null cs else c)"

definition column_parser :: "'g env \<Rightarrow> 'g cell list \<Rightarrow> string \<Rightarrow> parsed" where
  \<comment> \<open>How \<open>pd.to_datetime\<close> reads the texts of a column: in the one format it infers from
      the first value that is not missing, and each text on its own when it infers none.\<close>
  "column_parser env cs =
     (case first_non_null cs of
        Str s \<Rightarrow> (case guess_datetime_format env s of
                    Some format \<Rightarrow> strptime env format
                  | None \<Rightarrow> parse_datetime env)
      | _ \<Rightarrow> parse_datetime env)"

fun parse_all :: "(string \<Rightarrow> parsed) \<Rightarrow> 'g cell list \<Rightarrow> error + 'g cell list" where
  \<comment> \<open>The loop of \<open>pd.to_datetime(column)\<close>: a text that does not parse raises. The loaders
      pass the result of a \<open>.str\<close> method, texts and missing values; the model refuses
      numbers and geometries.\<close>
  "parse_all p [] = Inr []"
| "parse_all p (c # cs) =
     (case (case c of
              Str s \<Rightarrow> (case p s of
                          Timestamp d \<Rightarrow> Inr (Date d)
                        | NaT \<Rightarrow> Inr NaN
                        | Unparseable \<Rightarrow> Inl DateParseError)
            | NaN \<Rightarrow> Inr NaN
            | Date d \<Rightarrow> Inr (Date d)
            | _ \<Rightarrow> Inl DateParseError) of
        Inl e \<Rightarrow> Inl e
      | Inr d \<Rightarrow> (case parse_all p cs of Inl e \<Rightarrow> Inl e | Inr ds \<Rightarrow> Inr (d # ds)))"

definition to_datetime :: "'g env \<Rightarrow> 'g cell list \<Rightarrow> error + 'g cell list" where
  \<comment> \<open>\<open>pd.to_datetime(column)\<close>\<close>
  "to_datetime env cs = parse_all (column_parser env cs) cs"

definition coerce_cell :: "(string \<Rightarrow> parsed) \<Rightarrow> 'g cell \<Rightarrow> 'g cell" where
  "coerce_cell p c =
     (case c of
        Str s \<Rightarrow> (case p s of Timestamp d \<Rightarrow> Date d | _ \<Rightarrow> NaN)
      | Date d \<Rightarrow> Date d
      | _ \<Rightarrow> NaN)"

definition to_datetime_coerce :: "'g env \<Rightarrow> 'g cell list \<Rightarrow> 'g cell list" where
  \<comment> \<open>\<open>pd.to_datetime(column, errors="coerce")\<close>: what does not parse is \<open>NaT\<close>.\<close>
  "to_datetime_coerce env cs = map (coerce_cell (column_parser env cs)) cs"

definition frame_to_crs :: "'g env \<Rightarrow> nat \<Rightarrow> 'g GeoDataFrame \<Rightarrow> error + 'g GeoDataFrame" where
  \<comment> \<open>\<open>gdf.to_crs(epsg=n)\<close>: raises on a frame without a reference system.\<close>
  "frame_to_crs env n gdf =
     (case crs gdf of
        None \<Rightarrow> Inl ValueError
      | Some c \<Rightarrow>
          Inr \<lparr>rows = map (\<lambda>r. r(''geometry'' :=
                                (case r ''geometry'' of Geom g \<Rightarrow> Geom (to_crs env c n g) | x \<Rightarrow> x)))
                           (rows gdf),
               crs = Some (EPSG n)\<rparr>)"

definition ensure_4326 :: "'g env \<Rightarrow> 'g GeoDataFrame \<Rightarrow> error + 'g GeoDataFrame" where
  \<comment> \<open>\<open>if gdf.crs != "EPSG:4326": gdf = gdf.to_crs(epsg=4326)\<close>\<close>
  "ensure_4326 env gdf =
     (if crs gdf \<noteq> Some (EPSG 4326) then frame_to_crs env 4326 gdf else Inr gdf)"

section \<open>The loaders\<close>

definition load_cambridge_crime :: "'g env \<Rightarrow> error + 'g DataFrame" where
  "load_cambridge_crime env =
     (let df = CAMBRIDGE_CRIME_CSV env;
          df = select [''Crime Date Time'', ''Crime'', ''Neighborhood'', ''Reporting Area''] df
      in case str_accessor py_split_first (col ''Crime Date Time'' df) of
           Inl e \<Rightarrow> Inl e
         | Inr firsts \<Rightarrow>
             (case to_datetime env firsts of
                Inl e \<Rightarrow> Inl e
              | Inr dates \<Rightarrow>
                  (let df = assign ''Date'' dates df;
                       df = assign ''Macro Crime''
                              (map (map_dict (CAMBRIDGE_CRIME_MACROS env)) (col ''Crime'' df)) df
                   in Inr df)))"

definition load_cambridge_geo :: "'g env \<Rightarrow> error + 'g GeoDataFrame" where
  "load_cambridge_geo env =
     (case ensure_4326 env (CAMBRIDGE_SHAPEFILE env) of
        Inl e \<Rightarrow> Inl e
      | Inr geo_df \<Rightarrow>
          Inr (geo_df\<lparr>rows := assign ''Mapped_Name''
                 (map (map_dict (CAMBRIDGE_NEIGHBORHOOD_NAME_MAP env)) (col ''NAME'' (rows geo_df)))
                 (rows geo_df)\<rparr>))"

definition load_boston_crime :: "'g env \<Rightarrow> error + 'g DataFrame" where
  "load_boston_crime env =
     (let df = BOSTON_CRIME_CSV env;
          df = select [''From Date'', ''Crime'', ''Neighborhood'', ''BPD District''] df
      in case str_accessor py_split_first (col ''From Date'' df) of
           Inl e \<Rightarrow> Inl e
         | Inr firsts \<Rightarrow>
             (case to_datetime env firsts of
                Inl e \<Rightarrow> Inl e
              | Inr dates \<Rightarrow>
                  (let df = assign ''Date'' dates df
                   in case str_accessor py_title (col ''Crime'' df) of
                        Inl e \<Rightarrow> Inl e
                      | Inr titles \<Rightarrow>
                          (let df = assign ''Crime'' titles df;
                               df = assign ''Macro Crime''
                                      (map (map_dict (BOSTON_CRIME_MACROS env)) (col ''Crime'' df)) df;
                               df = assign ''Mapped_Neighborhood''
                                      (map (\<lambda>(m, n). fillna n m)
                                         (zip (map (map_dict (BOSTON_NEIGHBORHOOD_NAME_MAP env))
                                                 (col ''Neighborhood'' df))
                                              (col ''Neighborhood'' df))) df
                           in Inr df))))"

fun strip_keys :: "'g dict \<Rightarrow> 'g dict \<Rightarrow> error + 'g dict" where
  \<comment> \<open>\<open>{k.strip(): v for k, v in d.items()}\<close>, built onto \<open>acc\<close>: a key that is not a text
      has no \<open>strip\<close>.\<close>
  "strip_keys acc [] = Inr acc"
| "strip_keys acc ((k, v) # kvs) =
     (case k of
        Str s \<Rightarrow> strip_keys (AList.update (Str (py_strip s)) v acc) kvs
      | _ \<Rightarrow> Inl AttributeError)"

definition load_boston_population :: "'g env \<Rightarrow> error + 'g dict" where
  "load_boston_population env =
     (let df = BOSTON_POP_XLSM env;
          index = col ''Unnamed: 0'' df
      in case loc_slice env index ''Allston'' ''West Roxbury'' of
           None \<Rightarrow> Inl KeyError
         | Some (start, stop) \<Rightarrow>
             (let pop_dict = to_dict (take (stop - start)
                                (drop start (zip index (col ''Total Population'' df))))
              in strip_keys [] pop_dict))"

definition load_boston_geo :: "'g env \<Rightarrow> error + 'g GeoDataFrame" where
  "load_boston_geo env =
     (case ensure_4326 env (BOSTON_SHAPEFILE env) of
        Inl e \<Rightarrow> Inl e
      | Inr geo_df \<Rightarrow>
          Inr (geo_df\<lparr>rows := assign ''Mapped_Name''
                 (map (\<lambda>(m, n). fillna n m)
                    (zip (map (map_dict (BOSTON_NEIGHBORHOOD_NAME_MAP env))
                            (col ''blockgr202'' (rows geo_df)))
                         (col ''blockgr202'' (rows geo_df))))
                 (rows geo_df)\<rparr>))"

definition geometry_area :: "'g env \<Rightarrow> 'g cell \<Rightarrow> 'g cell" where
  \<comment> \<open>\<open>.geometry.area\<close> on one cell: a missing geometry has no area.\<close>
  "geometry_area env c = (case c of Geom g \<Rightarrow> Number (area env g) | _ \<Rightarrow> NaN)"

definition series_sum :: "'g cell list \<Rightarrow> real" where
  \<comment> \<open>\<open>Series.sum()\<close>: missing values are skipped.\<close>
  "series_sum cs = sum_list (map (\<lambda>c. case c of Number a \<Rightarrow> a | _ \<Rightarrow> 0) cs)"

definition build_area_weighted_population ::
  "'g env \<Rightarrow> 'g GeoDataFrame \<Rightarrow> int \<Rightarrow> error + 'g dict" where
  \<comment> \<open>\<open>_build_area_weighted_population\<close>\<close>
  "build_area_weighted_population env geo_df total_population =
     (case frame_to_crs env 26986 geo_df of
        Inl e \<Rightarrow> Inl e
      | Inr area_df \<Rightarrow>
          (let areas = map (geometry_area env) (col ''geometry'' (rows area_df));
               total_area = series_sum areas
           in if total_area = 0
              then Inr (to_dict (map (\<lambda>name. (name, Number (real_of_int total_population)))
                                   (unique (dropna (col ''NBHD'' (rows geo_df))))))
              else
                (let pop = map (\<lambda>a. case a of
                                       Number x \<Rightarrow> Number (x / total_area * real_of_int total_population)
                                     | _ \<Rightarrow> NaN) areas
                 in Inr (to_dict (zip (col ''NBHD'' (rows area_df)) pop)))))"

definition load_somerville_geo :: "'g env \<Rightarrow> error + 'g GeoDataFrame" where
  "load_somerville_geo env =
     (case ensure_4326 env (SOMERVILLE_SHAPEFILE env) of
        Inl e \<Rightarrow> Inl e
      | Inr geo_df \<Rightarrow>
          Inr (geo_df\<lparr>rows := assign ''Mapped_Name'' (col ''NBHD'' (rows geo_df)) (rows geo_df)\<rparr>))"

definition str_add :: "'g cell \<Rightarrow> 'g cell \<Rightarrow> 'g cell" where
  \<comment> \<open>\<open>+\<close> on two cells of text columns.\<close>
  "str_add a b = (case (a, b) of (Str x, Str y) \<Rightarrow> Str (x @ y) | _ \<Rightarrow> NaN)"

definition merge_left ::
  "string \<Rightarrow> string \<Rightarrow> string list \<Rightarrow> 'g DataFrame \<Rightarrow> 'g DataFrame \<Rightarrow> 'g DataFrame" where
  \<comment> \<open>\<open>left.merge(right, left_on=.., right_on=.., how="left")\<close>, \<open>right\<close> having the columns
      \<open>right_cols\<close>: every left row in order, once for each right row with its key, and
      once with the right columns missing when there is none.\<close>
  "merge_left left_on right_on right_cols left right =
     concat (map (\<lambda>l.
        (let ms = filter (\<lambda>r. r right_on = l left_on) right
         in if ms = [] then [\<lambda>c. if c \<in> set right_cols then NaN else l c]
            else map (\<lambda>r c. if c \<in> set right_cols then r c else l c) ms)) left)"

definition sjoin_matches :: "'g env \<Rightarrow> 'g row \<Rightarrow> 'g DataFrame \<Rightarrow> (nat \<times> 'g row) list" where
  \<comment> \<open>The rows of \<open>right\<close>, with their positions, whose geometry intersects the one of \<open>l\<close>.\<close>
  "sjoin_matches env l right =
     (case l ''geometry'' of
        Geom g \<Rightarrow> filter (\<lambda>(j, r). case r ''geometry'' of Geom h \<Rightarrow> intersects env g h | _ \<Rightarrow> False)
                   (enumerate 0 right)
      | _ \<Rightarrow> [])"

definition sjoin_left :: "'g env \<Rightarrow> 'g DataFrame \<Rightarrow> 'g DataFrame \<Rightarrow> 'g DataFrame" where
  \<comment> \<open>\<open>gpd.sjoin(left, right[["NBHD", "geometry"]], how="left", predicate="intersects")\<close>:
      every left row in order, once for each right row it intersects, and once with
      \<open>NBHD\<close> missing when there is none. The several matches of one left row are listed
      in the order of the right frame; geopandas lists them in the order of its spatial
      index, which the model does not follow.\<close>
  "sjoin_left env left right =
     concat (map (\<lambda>l.
        (let ms = sjoin_matches env l right
         in if ms = [] then [l(''index_right'' := NaN, ''NBHD'' := NaN)]
            else map (\<lambda>(j, r). l(''index_right'' := Number (real j), ''NBHD'' := r ''NBHD'')) ms))
        left)"

definition load_somerville_crime :: "'g env \<Rightarrow> error + 'g DataFrame" where
  \<comment> \<open>A column that went through \<open>.astype(str)\<close> is of text type, so the \<open>.str\<close> methods
      that follow it (\<open>strip\<close>, \<open>title\<close>, \<open>rstrip\<close>) apply to it whatever it holds.\<close>
  "load_somerville_crime env =
     (let df = SOMERVILLE_CRIME_CSV env;
          day_month = map (\<lambda>c. str_op py_strip (astype_str env (fillna (Str []) c)))
                        (col ''Day and Month Reported'' df);
          year_part = map (astype_str env) (col ''Year Reported'' df);
          df = assign ''Date''
                 (map (\<lambda>(dm, y). str_add (str_add (if dm \<noteq> Str [] then dm else Str ''01/01'')
                                             (Str ''/'')) y)
                    (zip day_month year_part)) df;
          df = assign ''Date'' (to_datetime_coerce env (col ''Date'' df)) df;
          df = select [''Date'', ''Offense Type'', ''Block Code''] df;
          df = assign ''Crime''
                 (map (\<lambda>c. str_op py_title (astype_str env c)) (col ''Offense Type'' df)) df;
          df = assign ''Macro Crime''
                 (map (map_dict (SOMERVILLE_CRIME_MACROS env)) (col ''Crime'' df)) df;
          df = assign ''Block Code''
                 (map (\<lambda>c. str_op (py_rstrip ''.0'') (astype_str env c)) (col ''Block Code'' df)) df;
          blocks = MA_CENSUS_BLOCKS env;
          somerville_blocks =
            blocks\<lparr>rows := filter (\<lambda>r. r ''TOWN'' = Str ''SOMERVILLE'') (rows blocks)\<rparr>
      in case ensure_4326 env somerville_blocks of
           Inl e \<Rightarrow> Inl e
         | Inr somerville_blocks \<Rightarrow>
             (let df = merge_left ''Block Code'' ''GEOID20'' [''GEOID20'', ''geometry''] df
                         (select [''GEOID20'', ''geometry''] (rows somerville_blocks))
              in case load_somerville_geo env of
                   Inl e \<Rightarrow> Inl e
                 | Inr geo_df \<Rightarrow>
                     (let df = sjoin_left env df (select [''NBHD'', ''geometry''] (rows geo_df));
                          df = rename ''NBHD'' ''Neighborhood'' df;
                          df = drop_columns
                                 [''geometry'', ''Block Code'', ''GEOID20'', ''index_right''] df
                      in Inr (select [''Date'', ''Crime'', ''Macro Crime'', ''Neighborhood''] df))))"

section \<open>The bundles\<close>

record 'g Bundle =
  crime :: "'g DataFrame"
  geo :: "'g GeoDataFrame"
  population :: "'g dict"
  zoom :: real
  population_year :: string

definition get_cambridge_bundle :: "'g env \<Rightarrow> error + 'g Bundle" where
  "get_cambridge_bundle env =
     (case load_cambridge_crime env of
        Inl e \<Rightarrow> Inl e
      | Inr c \<Rightarrow>
          (case load_cambridge_geo env of
             Inl e \<Rightarrow> Inl e
           | Inr g \<Rightarrow>
               Inr \<lparr>crime = c, geo = g, population = CAMBRIDGE_POP_2020 env, zoom = 13,
                    population_year = ''2020''\<rparr>))"

definition get_boston_bundle :: "'g env \<Rightarrow> error + 'g Bundle" where
  "get_boston_bundle env =
     (case load_boston_crime env of
        Inl e \<Rightarrow> Inl e
      | Inr c \<Rightarrow>
          (case load_boston_geo env of
             Inl e \<Rightarrow> Inl e
           | Inr g \<Rightarrow>
               (case load_boston_population env of
                  Inl e \<Rightarrow> Inl e
                | Inr p \<Rightarrow>
                    Inr \<lparr>crime = c, geo = g, population = p, zoom = 12,
                         population_year = ''2019''\<rparr>)))"

definition get_somerville_bundle :: "'g env \<Rightarrow> error + 'g Bundle" where
  "get_somerville_bundle env =
     (case load_somerville_geo env of
        Inl e \<Rightarrow> Inl e
      | Inr geo_df \<Rightarrow>
          (case build_area_weighted_population env geo_df (SOMERVILLE_TOTAL_POP_2022 env) of
             Inl e \<Rightarrow> Inl e
           | Inr p \<Rightarrow>
               (case load_somerville_crime env of
                  Inl e \<Rightarrow> Inl e
                | Inr c \<Rightarrow>
                    Inr \<lparr>crime = c, geo = geo_df, population = p, zoom = 13,
                         population_year = ''2022 (area-weighted)''\<rparr>)))"

definition assign_City :: "string \<Rightarrow> 'g GeoDataFrame \<Rightarrow> 'g DataFrame" where
  \<comment> \<open>The rows of \<open>gdf.assign(City=name)\<close>.\<close>
  "assign_City name gdf = map (\<lambda>r. r(''City'' := Str name)) (rows gdf)"

definition get_all_metro_bundle :: "'g env \<Rightarrow> error + 'g Bundle" where
  "get_all_metro_bundle env =
     (case get_cambridge_bundle env of
        Inl e \<Rightarrow> Inl e
      | Inr cambridge \<Rightarrow>
          (case get_boston_bundle env of
             Inl e \<Rightarrow> Inl e
           | Inr boston \<Rightarrow>
               (case get_somerville_bundle env of
                  Inl e \<Rightarrow> Inl e
                | Inr somerville \<Rightarrow>
                    (let crime_data = concat [crime cambridge, crime boston, crime somerville];
                         geo_df = \<lparr>rows = concat [assign_City ''Cambridge'' (geo cambridge),
                                                   assign_City ''Boston'' (geo boston),
                                                   assign_City ''Somerville'' (geo somerville)],
                                   crs = crs (geo cambridge)\<rparr>;
                         pop = dict_merge (dict_merge (dict_merge [] (population cambridge))
                                             (population boston)) (population somerville)
                     in Inr \<lparr>crime = crime_data, geo = geo_df, population = pop,
                             zoom = 23 / 2, population_year = ''2020, 2019, 2022''\<rparr>))))"

definition get_bundle :: "'g env \<Rightarrow> string \<Rightarrow> error + 'g Bundle" where
  "get_bundle env municipality =
     (if municipality = ''Cambridge'' then get_cambridge_bundle env
      else if municipality = ''Boston'' then get_boston_bundle env
      else if municipality = ''Somerville'' then get_somerville_bundle env
      else get_all_metro_bundle env)"

section \<open>Terms of the claims\<close>

text \<open>
  The sum of the values of a population table, as Python's \<open>sum(d.values())\<close> computes
  it: defined when every value is a number. The projected area of a region is the area
  of its geometry in EPSG:26986, as \<open>build_area_weighted_population\<close> computes it; a
  region without a geometry adds nothing to the total, as \<open>Series.sum\<close> skips it.
\<close>

definition values_sum :: "'g dict \<Rightarrow> real option" where
  "values_sum d =
     (if list_all (\<lambda>v. case v of Number x \<Rightarrow> True | _ \<Rightarrow> False) (map snd d)
      then Some (sum_list (map (\<lambda>v. case v of Number x \<Rightarrow> x | _ \<Rightarrow> 0) (map snd d)))
      else None)"

definition projected_area :: "'g env \<Rightarrow> 'g GeoDataFrame \<Rightarrow> 'g row \<Rightarrow> real" where
  "projected_area env geo_df r =
     (case (crs geo_df, r ''geometry'') of
        (Some c, Geom g) \<Rightarrow> area env (to_crs env c 26986 g)
      | _ \<Rightarrow> 0)"

definition total_projected_area :: "'g env \<Rightarrow> 'g GeoDataFrame \<Rightarrow> real" where
  "total_projected_area env geo_df = sum_list (map (projected_area env geo_df) (rows geo_df))"

definition has_geometry :: "'g row \<Rightarrow> bool" where
  "has_geometry r = (case r ''geometry'' of Geom g \<Rightarrow> True | _ \<Rightarrow> False)"

text \<open>
  The dates of the crime tables of Cambridge and Boston, as their loaders compute them:
  the only steps of \<open>load_cambridge_crime\<close> that can raise, and with the title case of
  the labels the only ones of \<open>load_boston_crime\<close>.
\<close>

definition cambridge_dates :: "'g env \<Rightarrow> error + 'g cell list" where
  "cambridge_dates env =
     (case str_accessor py_split_first (col ''Crime Date Time'' (CAMBRIDGE_CRIME_CSV env)) of
        Inl e \<Rightarrow> Inl e
      | Inr firsts \<Rightarrow> to_datetime env firsts)"

definition boston_dates :: "'g env \<Rightarrow> error + 'g cell list" where
  "boston_dates env =
     (case str_accessor py_split_first (col ''From Date'' (BOSTON_CRIME_CSV env)) of
        Inl e \<Rightarrow> Inl e
      | Inr firsts \<Rightarrow> to_datetime env firsts)"


text \<open>
  The loader of Somerville's crime table, row by row. \<open>load_somerville_crime\<close> works on
  whole columns and joins whole frames; the definitions below say what it computes for
  one row of the crime table, and lemma \<open>load_somerville_crime_records\<close> proves that
  the loader returns exactly these records, row after row. \<open>post_join\<close> and \<open>finish\<close>
  name the last steps of the loader for the proofs.
\<close>

definition crime_record :: "'g cell \<Rightarrow> 'g cell \<Rightarrow> 'g cell \<Rightarrow> 'g cell \<Rightarrow> 'g row" where
  "crime_record d c m n =
     (\<lambda>k. NaN)(''Date'' := d, ''Crime'' := c, ''Macro Crime'' := m, ''Neighborhood'' := n)"

definition intersecting_neighborhoods :: "'g env \<Rightarrow> 'g DataFrame \<Rightarrow> 'g cell \<Rightarrow> 'g cell list" where
  "intersecting_neighborhoods env gs c =
     (case c of
        Geom g \<Rightarrow> map (\<lambda>n. n ''NBHD'')
                    (filter (\<lambda>n. case n ''geometry'' of Geom h \<Rightarrow> intersects env g h | _ \<Rightarrow> False) gs)
      | _ \<Rightarrow> [])"

definition joined_neighborhoods ::
  "'g env \<Rightarrow> 'g DataFrame \<Rightarrow> 'g DataFrame \<Rightarrow> 'g cell \<Rightarrow> 'g cell list" where
  "joined_neighborhoods env bs gs key =
     (let ms = filter (\<lambda>b. b ''GEOID20'' = key) bs
      in if ms = [] then [NaN]
         else concat (map (\<lambda>b. let ns = intersecting_neighborhoods env gs (b ''geometry'')
                                in if ns = [] then [NaN] else ns) ms))"

definition post_join :: "'g env \<Rightarrow> 'g DataFrame \<Rightarrow> 'g DataFrame \<Rightarrow> 'g DataFrame \<Rightarrow> 'g DataFrame" where
  "post_join env bs gs left =
     select [''Date'', ''Crime'', ''Macro Crime'', ''Neighborhood'']
       (drop_columns [''geometry'', ''Block Code'', ''GEOID20'', ''index_right'']
          (rename ''NBHD'' ''Neighborhood''
             (sjoin_left env
                (merge_left ''Block Code'' ''GEOID20'' [''GEOID20'', ''geometry''] left
                   (select [''GEOID20'', ''geometry''] bs))
                (select [''NBHD'', ''geometry''] gs))))"

definition finish :: "'g DataFrame \<Rightarrow> 'g DataFrame" where
  "finish df =
     select [''Date'', ''Crime'', ''Macro Crime'', ''Neighborhood'']
       (drop_columns [''geometry'', ''Block Code'', ''GEOID20'', ''index_right'']
          (rename ''NBHD'' ''Neighborhood'' df))"

definition somerville_date_text :: "'g env \<Rightarrow> 'g row \<Rightarrow> 'g cell" where
  \<comment> \<open>The text handed to \<open>pd.to_datetime\<close> for one row of the crime table.\<close>
  "somerville_date_text env r =
     (let day_month = str_op py_strip (astype_str env (fillna (Str []) (r ''Day and Month Reported'')));
          year_part = astype_str env (r ''Year Reported'')
      in str_add (str_add (if day_month \<noteq> Str [] then day_month else Str ''01/01'') (Str ''/''))
           year_part)"

definition date_parser :: "'g env \<Rightarrow> string \<Rightarrow> parsed" where
  \<comment> \<open>How \<open>pd.to_datetime\<close> reads the date texts of Somerville's crime table.\<close>
  "date_parser env =
     column_parser env (map (somerville_date_text env) (SOMERVILLE_CRIME_CSV env))"

definition somerville_date :: "'g env \<Rightarrow> 'g row \<Rightarrow> 'g cell" where
  "somerville_date env r = coerce_cell (date_parser env) (somerville_date_text env r)"

definition somerville_label :: "'g env \<Rightarrow> 'g row \<Rightarrow> 'g cell" where
  "somerville_label env r = str_op py_title (astype_str env (r ''Offense Type''))"

definition block_key :: "'g env \<Rightarrow> 'g row \<Rightarrow> 'g cell" where
  "block_key env r = str_op (py_rstrip ''.0'') (astype_str env (r ''Block Code''))"

definition somerville_blocks :: "'g env \<Rightarrow> error + 'g GeoDataFrame" where
  "somerville_blocks env =
     ensure_4326 env
       ((MA_CENSUS_BLOCKS env)
          \<lparr>rows := filter (\<lambda>r. r ''TOWN'' = Str ''SOMERVILLE'') (rows (MA_CENSUS_BLOCKS env))\<rparr>)"

definition somerville_records :: "'g env \<Rightarrow> 'g DataFrame \<Rightarrow> 'g DataFrame \<Rightarrow> 'g row \<Rightarrow> 'g DataFrame" where
  "somerville_records env bs gs r =
     map (crime_record (somerville_date env r) (somerville_label env r)
            (map_dict (SOMERVILLE_CRIME_MACROS env) (somerville_label env r)))
       (joined_neighborhoods env bs gs (block_key env r))"

definition block_rows :: "'g env \<Rightarrow> 'g DataFrame" where
  \<comment> \<open>The census blocks of Somerville, as the loader joins them.\<close>
  "block_rows env = (case somerville_blocks env of Inr sb \<Rightarrow> rows sb | Inl e \<Rightarrow> [])"

definition neighborhood_rows :: "'g env \<Rightarrow> 'g DataFrame" where
  \<comment> \<open>The neighborhood polygons of Somerville, as the loader joins them.\<close>
  "neighborhood_rows env = (case load_somerville_geo env of Inr gf \<Rightarrow> rows gf | Inl e \<Rightarrow> [])"

definition matching_blocks :: "'g env \<Rightarrow> 'g row \<Rightarrow> 'g DataFrame" where
  \<comment> \<open>The census blocks whose \<open>GEOID20\<close> is the normalised block code of the crime row.\<close>
  "matching_blocks env r = filter (\<lambda>b. b ''GEOID20'' = block_key env r) (block_rows env)"

definition records_of :: "'g env \<Rightarrow> 'g row \<Rightarrow> 'g DataFrame" where
  \<comment> \<open>The records the loader returns for one row of the crime table.\<close>
  "records_of env r = somerville_records env (block_rows env) (neighborhood_rows env) r"

section \<open>Example inputs\<close>

text \<open>
  A small instance of the inputs, on which the theorems are evaluated. A geometry is a
  list of grid cells: its area is the number of cells, two geometries intersect when
  they share a cell, and reprojection leaves it as it is.
\<close>

definition mk_row :: "(string \<times> 'g cell) list \<Rightarrow> 'g row" where
  "mk_row kvs = (\<lambda>c. case map_of kvs c of Some v \<Rightarrow> v | None \<Rightarrow> NaN)"

definition demo_loc_slice :: "'g cell list \<Rightarrow> string \<Rightarrow> string \<Rightarrow> (nat \<times> nat) option" where
  "demo_loc_slice index a b =
     (if Str a \<in> set index \<and> Str b \<in> set index
      then Some (length (takeWhile (\<lambda>c. c \<noteq> Str a) index),
                 Suc (length (takeWhile (\<lambda>c. c \<noteq> Str b) index)))
      else None)"

text \<open>
  The date parsers on the texts of the examples, with the answers of pandas 2: a text
  of two digits, a slash, two digits, a slash and four digits has the format
  \<open>%m/%d/%Y\<close>, the text \<open>03-15/2021\<close> the format \<open>%m-%d/%Y\<close>, and a text is read in a format
  only when it has that format.
\<close>

definition demo_parse_datetime :: "string \<Rightarrow> parsed" where
  "demo_parse_datetime s =
     (if s = ''01/01/2022'' then Timestamp (YMD 2022 1 1)
      else if s = ''03/15/2021'' \<or> s = ''03-15/2021'' then Timestamp (YMD 2021 3 15)
      else if s = [] then NaT
      else Unparseable)"

definition demo_guess_datetime_format :: "string \<Rightarrow> string option" where
  "demo_guess_datetime_format s =
     (if s = ''01/01/2022'' \<or> s = ''03/15/2021'' then Some ''%m/%d/%Y''
      else if s = ''03-15/2021'' then Some ''%m-%d/%Y''
      else None)"

definition demo_strptime :: "string \<Rightarrow> string \<Rightarrow> parsed" where
  "demo_strptime format s =
     (if s = [] then NaT
      else if format = ''%m/%d/%Y'' \<and> (s = ''01/01/2022'' \<or> s = ''03/15/2021'')
        then demo_parse_datetime s
      else if format = ''%m-%d/%Y'' \<and> s = ''03-15/2021'' then demo_parse_datetime s
      else Unparseable)"

definition demo_env :: "nat list env" where
  "demo_env =
     \<lparr>guess_datetime_format = demo_guess_datetime_format,
      strptime = demo_strptime,
      parse_datetime = demo_parse_datetime,
      astype_str_missing = Str ''nan'',
      py_str = (\<lambda>c. ''object''),
      to_crs = (\<lambda>c n g. g),
      area = (\<lambda>g. real (length g)),
      intersects = (\<lambda>g h. list_ex (\<lambda>x. x \<in> set h) g),
      loc_slice = demo_loc_slice,
      CAMBRIDGE_CRIME_CSV =
        [mk_row [(''Crime Date Time'', Str ''03/15/2021 10:30''), (''Crime'', Str ''Larceny from MV''),
                 (''Neighborhood'', Str ''Area 4''), (''Reporting Area'', Str ''402'')]],
      BOSTON_CRIME_CSV =
        [mk_row [(''From Date'', Str ''03/15/2021 08:00''), (''Crime'', Str ''LARCENY''),
                 (''Neighborhood'', Str ''Allston''), (''BPD District'', Str ''D14'')]],
      SOMERVILLE_CRIME_CSV =
        [mk_row [(''Year Reported'', Integer 2022), (''Offense Type'', Str ''FRAUD''),
                 (''Block Code'', Str ''1500.0'')],
         mk_row [(''Day and Month Reported'', Str ''03/15''), (''Year Reported'', Integer 2021),
                 (''Offense Type'', Str ''assault''), (''Block Code'', Str ''99'')],
         mk_row [(''Day and Month Reported'', Str ''13/45''), (''Year Reported'', Integer 2021),
                 (''Offense Type'', Str ''Fraud''), (''Block Code'', Str ''17'')]],
      BOSTON_POP_XLSM =
        [mk_row [(''Unnamed: 0'', Str ''Allston''), (''Total Population'', Number 19261)],
         mk_row [(''Unnamed: 0'', Str ''Back Bay ''), (''Total Population'', Number 17783)],
         mk_row [(''Unnamed: 0'', Str ''West Roxbury''), (''Total Population'', Number 33526)]],
      CAMBRIDGE_SHAPEFILE =
        \<lparr>rows = [mk_row [(''NAME'', Str ''Area Four''), (''geometry'', Geom [1, 2])],
                 mk_row [(''NAME'', Str ''Riverside''), (''geometry'', Geom [4])]],
         crs = Some (EPSG 4326)\<rparr>,
      BOSTON_SHAPEFILE =
        \<lparr>rows = [mk_row [(''blockgr202'', Str ''South Boston Waterfront''), (''geometry'', Geom [3])],
                 mk_row [(''blockgr202'', Str ''Allston''), (''geometry'', Geom [5, 6])]],
         crs = Some (EPSG 2249)\<rparr>,
      SOMERVILLE_SHAPEFILE =
        \<lparr>rows = [mk_row [(''NBHD'', Str ''Spring Hill''), (''geometry'', Geom [10, 11])],
                 mk_row [(''NBHD'', Str ''Winter Hill''), (''geometry'', Geom [12, 13, 14])]],
         crs = Some (EPSG 4326)\<rparr>,
      MA_CENSUS_BLOCKS =
        \<lparr>rows = [mk_row [(''TOWN'', Str ''SOMERVILLE''), (''GEOID20'', Str ''15''),
                         (''geometry'', Geom [10])],
                 mk_row [(''TOWN'', Str ''BOSTON''), (''GEOID20'', Str ''16''),
                         (''geometry'', Geom [3])],
                 mk_row [(''TOWN'', Str ''SOMERVILLE''), (''GEOID20'', Str ''17''),
                         (''geometry'', Geom [50])]],
         crs = Some (EPSG 4326)\<rparr>,
      CAMBRIDGE_CRIME_MACROS = [''Larceny from MV'' \<mapsto> ''Property''],
      BOSTON_CRIME_MACROS = [''Larceny'' \<mapsto> ''Property''],
      SOMERVILLE_CRIME_MACROS = [''Fraud'' \<mapsto> ''Financial''],
      CAMBRIDGE_NEIGHBORHOOD_NAME_MAP = [''Area Four'' \<mapsto> ''Area 4''],
      BOSTON_NEIGHBORHOOD_NAME_MAP = [''South Boston Waterfront'' \<mapsto> ''South Boston''],
      CAMBRIDGE_POP_2020 = [(Str ''Area 4'', Number 7000)],
      SOMERVILLE_TOTAL_POP_2022 = 80000\<rparr>"

definition region :: "string \<Rightarrow> 'g \<Rightarrow> 'g row" where
  "region name g = mk_row [(''NBHD'', Str name), (''geometry'', Geom g)]"

definition three_regions :: "nat list GeoDataFrame" where
  "three_regions =
     \<lparr>rows = [region ''Spring Hill'' (replicate 10 0), region ''Winter Hill'' (replicate 20 0),
              region ''Ten Hills'' (replicate 70 0)],
      crs = Some (EPSG 4326)\<rparr>"

definition same_name_regions :: "nat list GeoDataFrame" where
  "same_name_regions =
     \<lparr>rows = [region ''Spring Hill'' [1], region ''Spring Hill'' [2]], crs = Some (EPSG 4326)\<rparr>"

definition empty_regions :: "nat list GeoDataFrame" where
  "empty_regions =
     \<lparr>rows = [region ''Spring Hill'' [], region ''Winter Hill'' []], crs = Some (EPSG 4326)\<rparr>"

definition same_name_empty_regions :: "nat list GeoDataFrame" where
  "same_name_empty_regions =
     \<lparr>rows = [region ''Spring Hill'' [], region ''Spring Hill'' []], crs = Some (EPSG 4326)\<rparr>"

text \<open>
  A census block on the border of two neighborhoods: it lies within Spring Hill alone
  and shares the cell 12 with Winter Hill.
\<close>

definition demo_within :: "nat list \<Rightarrow> nat list \<Rightarrow> bool" where
  \<comment> \<open>Containment of the example geometries: every cell of \<open>g\<close> is a cell of \<open>h\<close>.\<close>
  "demo_within g h = list_all (\<lambda>x. x \<in> set h) g"

definition overlap_env :: "nat list env" where
  "overlap_env =
     demo_env
       \<lparr>SOMERVILLE_CRIME_CSV :=
          [mk_row [(''Year Reported'', Integer 2022), (''Offense Type'', Str ''FRAUD''),
                   (''Block Code'', Str ''15'')]],
        SOMERVILLE_SHAPEFILE :=
          \<lparr>rows = [mk_row [(''NBHD'', Str ''Spring Hill''), (''geometry'', Geom [10, 11, 12])],
                   mk_row [(''NBHD'', Str ''Winter Hill''), (''geometry'', Geom [12, 13, 14])]],
           crs = Some (EPSG 4326)\<rparr>,
        MA_CENSUS_BLOCKS :=
          \<lparr>rows = [mk_row [(''TOWN'', Str ''SOMERVILLE''), (''GEOID20'', Str ''15''),
                           (''geometry'', Geom [11, 12])]],
           crs = Some (EPSG 4326)\<rparr>\<rparr>"

text \<open>
  Cambridge crime tables: one whose label differs from its title case, with a
  category table keyed by the title case, and one with a row that has no label.
\<close>

definition lower_case_env :: "nat list env" where
  "lower_case_env =
     demo_env
       \<lparr>CAMBRIDGE_CRIME_CSV :=
          [mk_row [(''Crime Date Time'', Str ''03/15/2021 10:30''), (''Crime'', Str ''larceny''),
                   (''Neighborhood'', Str ''Area 4'')]],
        CAMBRIDGE_CRIME_MACROS := [''Larceny'' \<mapsto> ''Property'']\<rparr>"



text \<open>
  A crime table of Boston whose only row has no label, and a crime table of Somerville
  whose only row has no offense type, read with pandas 3 (\<open>.astype(str)\<close> keeps a missing
  value).
\<close>

definition boston_no_label_env :: "nat list env" where
  "boston_no_label_env =
     demo_env
       \<lparr>BOSTON_CRIME_CSV :=
          [mk_row [(''From Date'', Str ''03/15/2021 08:00''), (''Neighborhood'', Str ''Allston'')]]\<rparr>"



section \<open>Dictionaries and the area-weighted population\<close>

lemma update_fresh: "k \<notin> fst ` set al \<Longrightarrow> AList.update k v al = al @ [(k, v)]"
  by (induction al) auto

lemma fold_update_distinct:
  "distinct (map fst (acc @ kvs)) \<Longrightarrow> fold (\<lambda>(k, v). AList.update k v) kvs acc = acc @ kvs"
proof (induction kvs arbitrary: acc)
  case Nil
  then show ?case by simp
next
  case (Cons p kvs)
  obtain k v where p: "p = (k, v)" by (cases p)
  from Cons.prems have fresh: "k \<notin> fst ` set acc" by (auto simp: p)
  from Cons.prems have "distinct (map fst ((acc @ [(k, v)]) @ kvs))" by (auto simp: p)
  then have "fold (\<lambda>(k, v). AList.update k v) kvs (acc @ [(k, v)]) = (acc @ [(k, v)]) @ kvs"
    by (rule Cons.IH)
  then show ?case by (simp add: p update_fresh [OF fresh])
qed

lemma to_dict_distinct: "distinct (map fst kvs) \<Longrightarrow> to_dict kvs = kvs"
  using fold_update_distinct [of "[]" kvs] by (simp add: to_dict_def)

lemma set_unique: "set (unique xs) = set xs"
  by (induction xs rule: unique.induct) auto

lemma distinct_unique: "distinct (unique xs)"
  by (induction xs rule: unique.induct) (auto simp: set_unique)

lemma unique_distinct: "distinct xs \<Longrightarrow> unique xs = xs"
proof (induction xs)
  case Nil
  then show ?case by simp
next
  case (Cons a xs)
  then have "filter (\<lambda>y. y \<noteq> a) xs = xs" by (auto simp: filter_id_conv)
  with Cons show ?case by simp
qed

lemma areas_total:
  assumes "crs geo_df = Some c" "frame_to_crs env 26986 geo_df = Inr area_df"
  shows "series_sum (map (geometry_area env) (col ''geometry'' (rows area_df)))
           = total_projected_area env geo_df"
proof -
  have "map (\<lambda>c. case c of Number a \<Rightarrow> a | _ \<Rightarrow> 0)
          (map (geometry_area env) (col ''geometry'' (rows area_df)))
        = map (projected_area env geo_df) (rows geo_df)"
    using assms
    by (auto simp: frame_to_crs_def col_def geometry_area_def projected_area_def
             split: cell.splits)
  then show ?thesis by (simp add: series_sum_def total_projected_area_def)
qed

lemma build_nonzero:
  assumes c: "crs geo_df = Some c"
    and nz: "total_projected_area env geo_df \<noteq> 0"
  shows "build_area_weighted_population env geo_df P =
           Inr (to_dict (map (\<lambda>r. (r ''NBHD'',
                  if has_geometry r
                  then Number (projected_area env geo_df r / total_projected_area env geo_df
                                 * real_of_int P)
                  else NaN)) (rows geo_df)))"
proof -
  obtain area_df where a: "frame_to_crs env 26986 geo_df = Inr area_df"
    using c by (simp add: frame_to_crs_def)
  have t: "series_sum (map (geometry_area env) (col ''geometry'' (rows area_df)))
             = total_projected_area env geo_df"
    using c a by (rule areas_total)
  have z: "zip (col ''NBHD'' (rows area_df))
             (map (\<lambda>a. case a of Number x \<Rightarrow> Number (x / total_projected_area env geo_df * real_of_int P)
                                | _ \<Rightarrow> NaN)
                (map (geometry_area env) (col ''geometry'' (rows area_df))))
           = map (\<lambda>r. (r ''NBHD'',
                  if has_geometry r
                  then Number (projected_area env geo_df r / total_projected_area env geo_df
                                 * real_of_int P)
                  else NaN)) (rows geo_df)"
    using c a
    by (auto simp: frame_to_crs_def col_def geometry_area_def projected_area_def has_geometry_def
                   zip_map_map zip_same_conv_map
             split: cell.splits)
  show ?thesis
    unfolding build_area_weighted_population_def a sum.case Let_def t z
    using nz by simp
qed

lemma build_zero:
  assumes c: "crs geo_df = Some c"
    and z: "total_projected_area env geo_df = 0"
  shows "build_area_weighted_population env geo_df P =
           Inr (to_dict (map (\<lambda>name. (name, Number (real_of_int P)))
                  (unique (dropna (col ''NBHD'' (rows geo_df))))))"
proof -
  obtain area_df where a: "frame_to_crs env 26986 geo_df = Inr area_df"
    using c by (simp add: frame_to_crs_def)
  have t: "series_sum (map (geometry_area env) (col ''geometry'' (rows area_df)))
             = total_projected_area env geo_df"
    using c a by (rule areas_total)
  show ?thesis
    unfolding build_area_weighted_population_def a sum.case Let_def t
    using z by simp
qed

lemma values_sum_Numbers:
  "values_sum (map (\<lambda>r. (k r, Number (f r))) xs) = Some (sum_list (map f xs))"
  by (simp add: values_sum_def list_all_iff o_def)

text \<open>
  Claim C1, as amended. For a frame with a reference system whose regions all have a
  geometry and pairwise distinct \<open>NBHD\<close> names, and whose total projected area is not
  zero, \<open>build_area_weighted_population\<close> returns the table that gives every region
  (region area / total area) * P, and its values sum to P. Numbers are exact reals here,
  so the sum is P itself.
\<close>

theorem area_weighted_sum:
  assumes "crs geo_df = Some c"
    and "list_all has_geometry (rows geo_df)"
    and "distinct (col ''NBHD'' (rows geo_df))"
    and "total_projected_area env geo_df \<noteq> 0"
  shows "\<exists>d. build_area_weighted_population env geo_df P = Inr d \<and>
             d = map (\<lambda>r. (r ''NBHD'',
                    Number (projected_area env geo_df r / total_projected_area env geo_df
                              * real_of_int P))) (rows geo_df) \<and>
             values_sum d = Some (real_of_int P)"
proof -
  let ?T = "total_projected_area env geo_df"
  let ?d = "map (\<lambda>r. (r ''NBHD'', Number (projected_area env geo_df r / ?T * real_of_int P)))
              (rows geo_df)"
  have same: "map (\<lambda>r. (r ''NBHD'',
                  if has_geometry r then Number (projected_area env geo_df r / ?T * real_of_int P)
                  else NaN)) (rows geo_df) = ?d"
    using assms(2) by (simp add: list_all_iff)
  have keys: "distinct (map fst ?d)"
    using assms(3) by (simp add: col_def o_def)
  have "build_area_weighted_population env geo_df P = Inr (to_dict ?d)"
    using build_nonzero [OF assms(1) assms(4), of P] by (simp only: same)
  then have b: "build_area_weighted_population env geo_df P = Inr ?d"
    by (simp only: to_dict_distinct [OF keys])
  have "sum_list (map (\<lambda>r. projected_area env geo_df r / ?T * real_of_int P) (rows geo_df))
          = sum_list (map (\<lambda>r. projected_area env geo_df r * (real_of_int P / ?T)) (rows geo_df))"
    by (simp add: field_simps)
  also have "\<dots> = ?T * (real_of_int P / ?T)"
    by (simp only: sum_list_mult_const total_projected_area_def)
  also have "\<dots> = real_of_int P"
    using assms(4) by simp
  finally have "values_sum ?d = Some (real_of_int P)"
    by (simp only: values_sum_Numbers)
  with b show ?thesis by blast
qed

lemmas demo_simps =
  demo_env_def region_def mk_row_def projected_area_def total_projected_area_def
  has_geometry_def col_def values_sum_def

text \<open>
  The scenario of the specification: areas 10, 20 and 70 with a population of 2000 give
  200, 400 and 1400.
\<close>

theorem area_weighted_sum_witness:
  "crs three_regions = Some (EPSG 4326) \<and>
   list_all has_geometry (rows three_regions) \<and>
   distinct (col ''NBHD'' (rows three_regions)) \<and>
   total_projected_area demo_env three_regions = 100 \<and>
   build_area_weighted_population demo_env three_regions 2000 =
     Inr [(Str ''Spring Hill'', Number 200), (Str ''Winter Hill'', Number 400),
          (Str ''Ten Hills'', Number 1400)] \<and>
   values_sum [(Str ''Spring Hill'', Number 200), (Str ''Winter Hill'', Number 400),
               (Str ''Ten Hills'', Number (1400::real)) :: nat list cell \<times> nat list cell]
     = Some 2000"
  using area_weighted_sum [of three_regions "EPSG 4326" demo_env 2000]
  by (simp add: three_regions_def demo_simps)

text \<open>
  Claim C1 as stated fails for two regions that share a name: the table is keyed by
  \<open>NBHD\<close>, the second region overwrites the first, and the values sum to 5, not to 10.
\<close>

theorem area_weighted_sum_counterexample:
  "col ''NBHD'' (rows same_name_regions) = [Str ''Spring Hill'', Str ''Spring Hill''] \<and>
   total_projected_area demo_env same_name_regions = 2 \<and>
   build_area_weighted_population demo_env same_name_regions 10 =
     Inr [(Str ''Spring Hill'', Number 5)] \<and>
   values_sum [(Str ''Spring Hill'', Number 5) :: nat list cell \<times> nat list cell] = Some 5"
  by (simp add: same_name_regions_def demo_simps build_area_weighted_population_def
        frame_to_crs_def geometry_area_def series_sum_def to_dict_def)

text \<open>
  Claim C2, as amended. For a frame with a reference system whose total projected area
  is zero, \<open>build_area_weighted_population\<close> returns, without raising, the table that
  gives P to every distinct \<open>NBHD\<close> name that is not missing. When the N regions have
  pairwise distinct names, none missing, every region has P and the values sum to N * P.
\<close>

theorem zero_area_fallback:
  assumes "crs geo_df = Some c"
    and "total_projected_area env geo_df = 0"
  shows "\<exists>d. build_area_weighted_population env geo_df P = Inr d \<and>
             d = map (\<lambda>name. (name, Number (real_of_int P)))
                   (unique (dropna (col ''NBHD'' (rows geo_df)))) \<and>
             (distinct (col ''NBHD'' (rows geo_df)) \<and> NaN \<notin> set (col ''NBHD'' (rows geo_df)) \<longrightarrow>
                d = map (\<lambda>r. (r ''NBHD'', Number (real_of_int P))) (rows geo_df) \<and>
                values_sum d = Some (real (length (rows geo_df)) * real_of_int P))"
proof -
  let ?names = "col ''NBHD'' (rows geo_df)"
  let ?d = "map (\<lambda>name. (name, Number (real_of_int P))) (unique (dropna ?names))"
  have keys: "distinct (map fst ?d)"
    by (simp add: o_def distinct_unique)
  have b: "build_area_weighted_population env geo_df P = Inr ?d"
    using build_zero [OF assms, of P] by (simp only: to_dict_distinct [OF keys])
  have special: "?d = map (\<lambda>r. (r ''NBHD'', Number (real_of_int P))) (rows geo_df) \<and>
                 values_sum ?d = Some (real (length (rows geo_df)) * real_of_int P)"
    if d: "distinct ?names" and n: "NaN \<notin> set ?names"
  proof -
    from n have "dropna ?names = ?names"
      by (auto simp: dropna_def filter_id_conv)
    with d have u: "unique (dropna ?names) = ?names"
      by (simp add: unique_distinct)
    have e: "?d = map (\<lambda>r. (r ''NBHD'', Number (real_of_int P))) (rows geo_df)"
      by (simp add: u) (simp add: col_def)
    have v: "values_sum (map (\<lambda>r. (r ''NBHD'', Number (real_of_int P))) (rows geo_df))
            = Some (real (length (rows geo_df)) * real_of_int P)"
      by (simp only: values_sum_Numbers) (simp add: sum_list_triv)
    show ?thesis
      unfolding e using v by (rule conjI [OF refl])
  qed
  from b special show ?thesis by blast
qed

theorem zero_area_fallback_witness:
  "crs empty_regions = Some (EPSG 4326) \<and>
   total_projected_area demo_env empty_regions = 0 \<and>
   distinct (col ''NBHD'' (rows empty_regions)) \<and>
   NaN \<notin> set (col ''NBHD'' (rows empty_regions)) \<and>
   build_area_weighted_population demo_env empty_regions 80000 =
     Inr [(Str ''Spring Hill'', Number 80000), (Str ''Winter Hill'', Number 80000)] \<and>
   values_sum [(Str ''Spring Hill'', Number 80000),
               (Str ''Winter Hill'', Number 80000) :: nat list cell \<times> nat list cell]
     = Some 160000"
  using zero_area_fallback [of empty_regions "EPSG 4326" demo_env 80000]
  by (simp add: empty_regions_def demo_simps dropna_def)

text \<open>
  Claim C2 as stated fails for two regions that share a name: the fallback runs over
  \<open>dropna().unique()\<close>, the table has one entry, and the values sum to P, not to 2 * P.
\<close>

theorem zero_area_fallback_counterexample:
  "length (rows same_name_empty_regions) = 2 \<and>
   total_projected_area demo_env same_name_empty_regions = 0 \<and>
   build_area_weighted_population demo_env same_name_empty_regions 80000 =
     Inr [(Str ''Spring Hill'', Number 80000)] \<and>
   values_sum [(Str ''Spring Hill'', Number 80000) :: nat list cell \<times> nat list cell]
     = Some 80000"
  by (simp add: same_name_empty_regions_def demo_simps build_area_weighted_population_def
        frame_to_crs_def geometry_area_def series_sum_def to_dict_def dropna_def)

section \<open>Frames and loaders, column by column and row by row\<close>

lemma length_col: "length (col c df) = length df"
  by (simp add: col_def)

lemma length_select: "length (select cs df) = length df"
  by (simp add: select_def)

lemma length_assign: "length vs = length df \<Longrightarrow> length (assign c vs df) = length df"
  by (simp add: assign_def)

lemma col_select: "c \<in> set cs \<Longrightarrow> col c (select cs df) = col c df"
  by (simp add: col_def select_def)

lemma col_assign_same: "length vs = length df \<Longrightarrow> col c (assign c vs df) = vs"
proof -
  assume l: "length vs = length df"
  have "col c (assign c vs df) = map snd (zip df vs)"
    by (simp add: col_def assign_def split_def)
  with l show ?thesis by simp
qed

lemma col_assign_other:
  "length vs = length df \<Longrightarrow> c' \<noteq> c \<Longrightarrow> col c' (assign c vs df) = col c' df"
proof -
  assume l: "length vs = length df" and n: "c' \<noteq> c"
  have "col c' (assign c vs df) = map (\<lambda>r. r c') (map fst (zip df vs))"
    using n by (simp add: col_def assign_def split_def)
  with l show ?thesis by (simp add: col_def)
qed

lemma parse_all_length: "parse_all p cs = Inr ds \<Longrightarrow> length ds = length cs"
proof (induction cs arbitrary: ds)
  case Nil
  then show ?case by simp
next
  case (Cons c cs)
  then show ?case
    by (auto split: sum.splits cell.splits parsed.splits)
qed

lemma to_datetime_length: "to_datetime env cs = Inr ds \<Longrightarrow> length ds = length cs"
  by (simp add: to_datetime_def parse_all_length)

lemma str_accessor_Inr:
  "str_accessor f cs = Inr ts \<Longrightarrow> ts = map (str_op f) cs \<and> (cs = [] \<or> list_ex is_text cs)"
  by (auto simp: str_accessor_def split: if_splits)

lemma str_accessor_length: "str_accessor f cs = Inr ts \<Longrightarrow> length ts = length cs"
  by (auto simp: str_accessor_def split: if_splits)

lemma str_accessor_Inl:
  "(str_accessor f cs = Inl e) = (e = AttributeError \<and> cs \<noteq> [] \<and> \<not> list_ex is_text cs)"
  by (auto simp: str_accessor_def)

lemma load_cambridge_crime_error:
  "(load_cambridge_crime env = Inl e) = (cambridge_dates env = Inl e)"
  by (auto simp: load_cambridge_crime_def cambridge_dates_def Let_def col_select
           split: sum.splits)

lemma load_cambridge_crime_cols:
  assumes "load_cambridge_crime env = Inr out"
  shows "length out = length (CAMBRIDGE_CRIME_CSV env) \<and>
         col ''Crime'' out = col ''Crime'' (CAMBRIDGE_CRIME_CSV env) \<and>
         col ''Neighborhood'' out = col ''Neighborhood'' (CAMBRIDGE_CRIME_CSV env) \<and>
         col ''Macro Crime'' out =
           map (map_dict (CAMBRIDGE_CRIME_MACROS env)) (col ''Crime'' (CAMBRIDGE_CRIME_CSV env)) \<and>
         cambridge_dates env = Inr (col ''Date'' out)"
proof -
  let ?csv = "CAMBRIDGE_CRIME_CSV env"
  let ?sel = "select [''Crime Date Time'', ''Crime'', ''Neighborhood'', ''Reporting Area''] ?csv"
  from assms obtain dates where d: "cambridge_dates env = Inr dates"
    and out: "out = assign ''Macro Crime''
                      (map (map_dict (CAMBRIDGE_CRIME_MACROS env))
                         (col ''Crime'' (assign ''Date'' dates ?sel)))
                      (assign ''Date'' dates ?sel)"
    by (auto simp: load_cambridge_crime_def cambridge_dates_def Let_def col_select
             split: sum.splits)
  from d obtain firsts where "str_accessor py_split_first (col ''Crime Date Time'' ?csv) = Inr firsts"
    and "to_datetime env firsts = Inr dates"
    by (auto simp: cambridge_dates_def split: sum.splits)
  then have ld: "length dates = length ?sel"
    using to_datetime_length [of env firsts dates]
      str_accessor_length [of py_split_first "col ''Crime Date Time'' ?csv" firsts]
    by (simp add: length_col length_select)
  have l1: "length (assign ''Date'' dates ?sel) = length ?sel"
    using ld by (rule length_assign)
  have c1: "col ''Crime'' (assign ''Date'' dates ?sel) = col ''Crime'' ?csv"
    using ld by (simp add: col_assign_other col_select)
  have lm: "length (map (map_dict (CAMBRIDGE_CRIME_MACROS env))
                      (col ''Crime'' (assign ''Date'' dates ?sel)))
              = length (assign ''Date'' dates ?sel)"
    by (simp add: length_col)
  have "length out = length ?csv"
    unfolding out using lm l1 by (simp add: length_assign length_select)
  moreover have "col ''Crime'' out = col ''Crime'' ?csv"
    unfolding out using lm c1 by (simp add: col_assign_other)
  moreover have "col ''Neighborhood'' out = col ''Neighborhood'' ?csv"
    unfolding out using lm ld by (simp add: col_assign_other col_select)
  moreover have "col ''Macro Crime'' out =
                   map (map_dict (CAMBRIDGE_CRIME_MACROS env)) (col ''Crime'' ?csv)"
    unfolding out using lm c1 by (simp add: col_assign_same)
  moreover have "col ''Date'' out = dates"
    unfolding out using lm ld by (simp add: col_assign_other col_assign_same)
  ultimately show ?thesis
    using d by simp
qed

lemmas frame_maps =
  col_def assign_def select_def split_def zip_map_map zip_map1 zip_map2 zip_same_conv_map

lemma load_boston_crime_error:
  "(load_boston_crime env = Inl e) =
     (boston_dates env = Inl e \<or>
      (\<exists>dates. boston_dates env = Inr dates) \<and> e = AttributeError \<and>
      BOSTON_CRIME_CSV env \<noteq> [] \<and> \<not> list_ex is_text (col ''Crime'' (BOSTON_CRIME_CSV env)))"
proof (cases "boston_dates env")
  case (Inl e')
  then show ?thesis
    by (auto simp: load_boston_crime_def boston_dates_def Let_def col_select split: sum.splits)
next
  case (Inr dates)
  then obtain firsts where f: "str_accessor py_split_first (col ''From Date'' (BOSTON_CRIME_CSV env)) = Inr firsts"
    and t: "to_datetime env firsts = Inr dates"
    by (auto simp: boston_dates_def split: sum.splits)
  have ld: "length dates = length (BOSTON_CRIME_CSV env)"
    using to_datetime_length [OF t] str_accessor_length [OF f] by (simp add: length_col)
  have c: "col ''Crime'' (assign ''Date'' dates
              (select [''From Date'', ''Crime'', ''Neighborhood'', ''BPD District''] (BOSTON_CRIME_CSV env)))
           = col ''Crime'' (BOSTON_CRIME_CSV env)"
    using ld by (simp add: col_assign_other col_select length_select)
  have n: "(col ''Crime'' (BOSTON_CRIME_CSV env) = []) = (BOSTON_CRIME_CSV env = [])"
    by (simp add: col_def)
  show ?thesis
  proof (cases "str_accessor py_title (col ''Crime'' (BOSTON_CRIME_CSV env))")
    case (Inl e')
    then have "load_boston_crime env = Inl e'"
      by (simp add: load_boston_crime_def Let_def col_select f t c)
    with Inl Inr show ?thesis
      by (auto simp: str_accessor_Inl n)
  next
    case titles: (Inr titles)
    then have "\<exists>out. load_boston_crime env = Inr out"
      by (simp add: load_boston_crime_def Let_def col_select f t c)
    moreover from titles have "BOSTON_CRIME_CSV env = [] \<or> list_ex is_text (col ''Crime'' (BOSTON_CRIME_CSV env))"
      using str_accessor_Inr [OF titles] by (simp add: n)
    ultimately show ?thesis
      using Inr by auto
  qed
qed


lemma load_boston_crime_cols:
  assumes "load_boston_crime env = Inr out"
  shows "length out = length (BOSTON_CRIME_CSV env) \<and>
         col ''Crime'' out = map (str_op py_title) (col ''Crime'' (BOSTON_CRIME_CSV env)) \<and>
         col ''Neighborhood'' out = col ''Neighborhood'' (BOSTON_CRIME_CSV env) \<and>
         col ''Macro Crime'' out = map (map_dict (BOSTON_CRIME_MACROS env)) (col ''Crime'' out) \<and>
         col ''Mapped_Neighborhood'' out =
           map (\<lambda>n. fillna n (map_dict (BOSTON_NEIGHBORHOOD_NAME_MAP env) n))
             (col ''Neighborhood'' (BOSTON_CRIME_CSV env)) \<and>
         boston_dates env = Inr (col ''Date'' out)"
proof -
  let ?csv = "BOSTON_CRIME_CSV env"
  obtain dates where d: "boston_dates env = Inr dates"
    and out: "out = map (\<lambda>p. (fst p)
                 (''Date'' := snd p,
                  ''Crime'' := str_op py_title (fst p ''Crime''),
                  ''Macro Crime'' := map_dict (BOSTON_CRIME_MACROS env) (str_op py_title (fst p ''Crime'')),
                  ''Mapped_Neighborhood'' :=
                     fillna (fst p ''Neighborhood'')
                       (map_dict (BOSTON_NEIGHBORHOOD_NAME_MAP env) (fst p ''Neighborhood''))))
                (zip (select [''From Date'', ''Crime'', ''Neighborhood'', ''BPD District''] ?csv) dates)"
    using assms
    by (auto simp: load_boston_crime_def boston_dates_def Let_def frame_maps o_def
             dest!: str_accessor_Inr split: sum.splits cong: if_cong)
  from d obtain firsts where "str_accessor py_split_first (col ''From Date'' ?csv) = Inr firsts"
    and "to_datetime env firsts = Inr dates"
    by (auto simp: boston_dates_def split: sum.splits)
  then have ld: "length dates = length ?csv"
    using to_datetime_length [of env firsts dates]
      str_accessor_length [of py_split_first "col ''From Date'' ?csv" firsts]
    by (simp add: length_col)
  have z1: "map fst (zip (select [''From Date'', ''Crime'', ''Neighborhood'', ''BPD District''] ?csv) dates)
              = select [''From Date'', ''Crime'', ''Neighborhood'', ''BPD District''] ?csv"
    using ld by (simp add: length_select)
  have z2: "map snd (zip (select [''From Date'', ''Crime'', ''Neighborhood'', ''BPD District''] ?csv) dates)
              = dates"
    using ld by (simp add: length_select)
  have "length out = length ?csv"
    unfolding out using ld by (simp add: length_select)
  moreover have "col ''Crime'' out = map (str_op py_title) (col ''Crime'' ?csv)"
    unfolding out col_def using arg_cong [OF z1, of "map (\<lambda>r. str_op py_title (r ''Crime''))"]
    by (simp add: o_def select_def)
  moreover have "col ''Neighborhood'' out = col ''Neighborhood'' ?csv"
    unfolding out col_def using arg_cong [OF z1, of "map (\<lambda>r. r ''Neighborhood'')"]
    by (simp add: o_def select_def)
  moreover have "col ''Macro Crime'' out = map (map_dict (BOSTON_CRIME_MACROS env)) (col ''Crime'' out)"
    unfolding out col_def by (simp add: o_def)
  moreover have "col ''Mapped_Neighborhood'' out =
           map (\<lambda>n. fillna n (map_dict (BOSTON_NEIGHBORHOOD_NAME_MAP env) n))
             (col ''Neighborhood'' ?csv)"
    unfolding out col_def
    using arg_cong [OF z1, of "map (\<lambda>r. fillna (r ''Neighborhood'')
                                 (map_dict (BOSTON_NEIGHBORHOOD_NAME_MAP env) (r ''Neighborhood'')))"]
    by (simp add: o_def select_def)
  moreover have "col ''Date'' out = dates"
    unfolding out col_def using z2 by (simp add: o_def)
  ultimately show ?thesis
    using d by simp
qed


lemma sjoin_left_append:
  "sjoin_left env (xs @ ys) right = sjoin_left env xs right @ sjoin_left env ys right"
  by (simp add: sjoin_left_def)

lemma merge_left_Cons:
  "merge_left a b cs (l # ls) right = merge_left a b cs [l] right @ merge_left a b cs ls right"
  by (simp add: merge_left_def)

lemma post_join_Cons: "post_join env bs gs (l # ls) = post_join env bs gs [l] @ post_join env bs gs ls"
  unfolding post_join_def
  by (subst merge_left_Cons) (simp add: sjoin_left_append select_def drop_columns_def rename_def)

lemma post_join_concat: "post_join env bs gs ls = concat (map (\<lambda>l. post_join env bs gs [l]) ls)"
proof (induction ls)
  case Nil
  show ?case by (simp add: post_join_def merge_left_def sjoin_left_def select_def
        drop_columns_def rename_def)
next
  case (Cons l ls)
  then show ?case by (subst post_join_Cons) simp
qed

lemma sjoin_matches_NBHD:
  "map (\<lambda>(j, r). r ''NBHD'') (sjoin_matches env l (select [''NBHD'', ''geometry''] gs))
     = intersecting_neighborhoods env gs (l ''geometry'')"
proof (cases "l ''geometry''")
  case (Geom g)
  have "map (\<lambda>(j, r). r ''NBHD'')
          (filter (\<lambda>(j, r). case r ''geometry'' of Geom h \<Rightarrow> intersects env g h | _ \<Rightarrow> False)
             (enumerate n (select [''NBHD'', ''geometry''] gs)))
        = map (\<lambda>n. n ''NBHD'')
            (filter (\<lambda>n. case n ''geometry'' of Geom h \<Rightarrow> intersects env g h | _ \<Rightarrow> False) gs)" for n
    by (induction gs arbitrary: n) (auto simp: select_def)
  with Geom show ?thesis
    by (simp add: sjoin_matches_def intersecting_neighborhoods_def)
qed (simp_all add: sjoin_matches_def intersecting_neighborhoods_def)

lemma finish_row:
  "finish [x] = [crime_record (x ''Date'') (x ''Crime'') (x ''Macro Crime'') (x ''NBHD'')]"
  by (auto simp: finish_def select_def drop_columns_def rename_def crime_record_def fun_eq_iff)

lemma finish_map: "finish df = map (\<lambda>x. crime_record (x ''Date'') (x ''Crime'') (x ''Macro Crime'') (x ''NBHD'')) df"
proof (induction df)
  case Nil
  show ?case by (simp add: finish_def select_def drop_columns_def rename_def)
next
  case (Cons x df)
  have "finish (x # df) = finish [x] @ finish df"
    by (simp add: finish_def select_def drop_columns_def rename_def)
  with Cons show ?case by (simp add: finish_row)
qed

lemma finish_sjoin_row:
  "finish (sjoin_left env [m] (select [''NBHD'', ''geometry''] gs))
     = map (crime_record (m ''Date'') (m ''Crime'') (m ''Macro Crime''))
         (let ns = intersecting_neighborhoods env gs (m ''geometry'')
          in if ns = [] then [NaN] else ns)"
proof -
  let ?ms = "sjoin_matches env m (select [''NBHD'', ''geometry''] gs)"
  have ns: "intersecting_neighborhoods env gs (m ''geometry'') = map (\<lambda>(j, r). r ''NBHD'') ?ms"
    by (simp add: sjoin_matches_NBHD)
  show ?thesis
  proof (cases "?ms = []")
    case True
    then show ?thesis
      by (simp add: ns sjoin_left_def finish_map)
  next
    case False
    then show ?thesis
      by (simp add: ns sjoin_left_def finish_map Let_def o_def split_def)
  qed
qed

lemma finish_sjoin:
  "finish (sjoin_left env ms right) = concat (map (\<lambda>m. finish (sjoin_left env [m] right)) ms)"
proof (induction ms)
  case Nil
  show ?case by (simp add: sjoin_left_def finish_map)
next
  case (Cons m ms)
  have "sjoin_left env (m # ms) right = sjoin_left env [m] right @ sjoin_left env ms right"
    using sjoin_left_append [of env "[m]" ms right] by simp
  with Cons show ?case by (simp add: finish_map)
qed

lemma merge_left_single:
  "merge_left a b cs [l] right =
     (if filter (\<lambda>r. r b = l a) right = [] then [\<lambda>c. if c \<in> set cs then NaN else l c]
      else map (\<lambda>r c. if c \<in> set cs then r c else l c) (filter (\<lambda>r. r b = l a) right))"
  by (simp add: merge_left_def Let_def)

lemma select_Nil: "(select cs df = []) = (df = [])"
  by (simp add: select_def)

lemma post_join_row:
  "post_join env bs gs [l]
     = map (crime_record (l ''Date'') (l ''Crime'') (l ''Macro Crime''))
         (joined_neighborhoods env bs gs (l ''Block Code''))"
proof -
  let ?right = "select [''NBHD'', ''geometry''] gs"
  let ?ms = "filter (\<lambda>b. b ''GEOID20'' = l ''Block Code'') bs"
  let ?G = "\<lambda>b c. if c \<in> set [''GEOID20'', ''geometry''] then b c else l c"
  have f: "filter (\<lambda>r. r ''GEOID20'' = l ''Block Code'') (select [''GEOID20'', ''geometry''] bs)
             = select [''GEOID20'', ''geometry''] ?ms"
    by (induction bs) (auto simp: select_def)
  have p: "post_join env bs gs [l]
             = finish (sjoin_left env
                 (merge_left ''Block Code'' ''GEOID20'' [''GEOID20'', ''geometry''] [l]
                    (select [''GEOID20'', ''geometry''] bs)) ?right)"
    by (simp add: post_join_def finish_def)
  show ?thesis
  proof (cases "?ms = []")
    case True
    have m: "merge_left ''Block Code'' ''GEOID20'' [''GEOID20'', ''geometry''] [l]
               (select [''GEOID20'', ''geometry''] bs)
             = [\<lambda>c. if c \<in> set [''GEOID20'', ''geometry''] then NaN else l c]"
      unfolding merge_left_single f select_Nil using True by simp
    show ?thesis
      unfolding p m finish_sjoin_row
      using True by (simp add: joined_neighborhoods_def intersecting_neighborhoods_def)
  next
    case False
    have m: "merge_left ''Block Code'' ''GEOID20'' [''GEOID20'', ''geometry''] [l]
               (select [''GEOID20'', ''geometry''] bs)
             = map ?G ?ms"
      unfolding merge_left_single f select_Nil using False
      by (auto simp: select_def o_def fun_eq_iff)
    have "finish (sjoin_left env (map ?G ?ms) ?right)
            = concat (map (\<lambda>m. finish (sjoin_left env [m] ?right)) (map ?G ?ms))"
      by (rule finish_sjoin)
    also have "\<dots> = concat (map (\<lambda>b. map (crime_record (l ''Date'') (l ''Crime'') (l ''Macro Crime''))
                          (let ns = intersecting_neighborhoods env gs (b ''geometry'')
                           in if ns = [] then [NaN] else ns)) ?ms)"
      by (simp add: finish_sjoin_row o_def)
    also have "\<dots> = map (crime_record (l ''Date'') (l ''Crime'') (l ''Macro Crime''))
                     (joined_neighborhoods env bs gs (l ''Block Code''))"
      using False by (simp add: joined_neighborhoods_def map_concat o_def)
    finally show ?thesis
      unfolding p m .
  qed
qed

lemma somerville_records_fun:
  "somerville_records env bs gs =
     (\<lambda>r. map (crime_record (somerville_date env r) (somerville_label env r)
                 (map_dict (SOMERVILLE_CRIME_MACROS env) (somerville_label env r)))
            (joined_neighborhoods env bs gs (block_key env r)))"
  by (rule ext) (simp add: somerville_records_def)

lemma somerville_date_text_fun:
  "somerville_date_text env =
     (\<lambda>r. str_add
            (str_add
               (if str_op py_strip (astype_str env (fillna (Str []) (r ''Day and Month Reported'')))
                     \<noteq> Str []
                then str_op py_strip (astype_str env (fillna (Str []) (r ''Day and Month Reported'')))
                else Str ''01/01'')
               (Str ''/''))
            (astype_str env (r ''Year Reported'')))"
  by (rule ext) (simp add: somerville_date_text_def Let_def)

lemma load_somerville_crime_records:
  "load_somerville_crime env =
     (case somerville_blocks env of
        Inl e \<Rightarrow> Inl e
      | Inr sb \<Rightarrow>
          (case load_somerville_geo env of
             Inl e \<Rightarrow> Inl e
           | Inr gf \<Rightarrow>
               Inr (concat (map (somerville_records env (rows sb) (rows gf))
                              (SOMERVILLE_CRIME_CSV env)))))"
  unfolding load_somerville_crime_def Let_def post_join_def [symmetric]
    somerville_blocks_def [symmetric]
  apply (subst post_join_concat)
  apply (simp only: post_join_row)
  apply (simp add: frame_maps o_def somerville_records_fun somerville_date_def somerville_date_text_fun date_parser_def
      to_datetime_coerce_def Let_def
      somerville_label_def block_key_def
      split: sum.splits cong: if_cong)
  done

section \<open>Bundles, block codes and canonical names\<close>

lemma title_LARCENY: "py_title ''LARCENY'' = ''Larceny''" by code_simp

lemma title_FRAUD: "py_title ''FRAUD'' = ''Fraud''" by code_simp

lemma title_assault: "py_title ''assault'' = ''Assault''" by code_simp

lemma title_Fraud: "py_title ''Fraud'' = ''Fraud''" by code_simp

lemmas title_demo = title_LARCENY title_FRAUD title_assault title_Fraud

lemma str_2021: "py_str_int 2021 = ''2021''" by code_simp
lemma str_2022: "py_str_int 2022 = ''2022''" by code_simp

lemmas loader_defs =
  load_cambridge_crime_def load_boston_crime_def load_cambridge_geo_def load_boston_geo_def
  load_somerville_geo_def load_boston_population_def ensure_4326_def frame_to_crs_def
  col_def assign_def select_def str_op_def map_dict_def fillna_def py_split_first_def
  to_dict_def demo_loc_slice_def py_strip_def py_isspace_def
  str_accessor_def is_text_def to_datetime_def column_parser_def
  demo_guess_datetime_format_def demo_strptime_def demo_parse_datetime_def

lemmas somerville_defs =
  somerville_blocks_def somerville_records_def somerville_date_def somerville_date_text_def
  somerville_label_def date_parser_def
  block_key_def joined_neighborhoods_def intersecting_neighborhoods_def crime_record_def
  astype_str_def str_add_def coerce_cell_def py_rstrip_def str_2021 str_2022
  block_rows_def neighborhood_rows_def matching_blocks_def records_of_def

lemmas bundle_defs =
  get_cambridge_bundle_def get_boston_bundle_def get_somerville_bundle_def
  get_all_metro_bundle_def build_area_weighted_population_def geometry_area_def series_sum_def
  dict_merge_def assign_City_def

lemmas demo_eval =
  load_somerville_crime_records demo_env_def mk_row_def loader_defs somerville_defs title_demo
  bundle_defs

text \<open>
  Claim C9. The loader normalises a block code by \<open>astype(str).str.rstrip(".0")\<close>, a trim
  of characters: the text \<open>1500.0\<close> becomes \<open>15\<close>, as \<open>15.0\<close> and \<open>150\<close> do, trailing zero
  digits included. In the example the crime row with block code \<open>1500.0\<close> is joined
  to the census block whose \<open>GEOID20\<close> is \<open>15\<close> and so gets its neighborhood.
\<close>

theorem block_code_trim:
  "block_key env (r(''Block Code'' := Str ''1500.0'')) = Str ''15'' \<and>
   block_key env (r(''Block Code'' := Str ''15.0'')) = Str ''15'' \<and>
   block_key env (r(''Block Code'' := Str ''150'')) = Str ''15'' \<and>
   map_sum id (col ''Neighborhood'') (load_somerville_crime demo_env) =
     Inr [Str ''Spring Hill'', NaN, NaN]"
  by (simp add: demo_eval)

lemma demo_cambridge_ok: "\<not> isl (get_cambridge_bundle demo_env)"
  by (simp add: demo_eval)

lemma demo_boston_ok: "\<not> isl (get_boston_bundle demo_env)"
  by (simp add: demo_eval)

lemma demo_somerville_ok: "\<not> isl (get_somerville_bundle demo_env)"
  by (simp add: demo_eval)

lemma not_isl_Inr: "\<not> isl x \<Longrightarrow> x = Inr (projr x)"
  by (cases x) simp_all

lemma demo_all_metro_ok: "\<not> isl (get_all_metro_bundle demo_env)"
  using demo_cambridge_ok demo_boston_ok demo_somerville_ok
  by (auto simp: get_all_metro_bundle_def Let_def split: sum.splits)

text \<open>
  Claim C10. \<open>get_bundle\<close> returns the bundle of Cambridge, Boston or Somerville for
  exactly these three names and the combined bundle for every other text; it has no
  error of its own, so whenever the three city bundles can be built every name gets a
  bundle.
\<close>

theorem get_bundle_dispatch:
  "get_bundle env ''Cambridge'' = get_cambridge_bundle env \<and>
   get_bundle env ''Boston'' = get_boston_bundle env \<and>
   get_bundle env ''Somerville'' = get_somerville_bundle env \<and>
   (m \<noteq> ''Cambridge'' \<and> m \<noteq> ''Boston'' \<and> m \<noteq> ''Somerville'' \<longrightarrow>
      get_bundle env m = get_all_metro_bundle env) \<and>
   (get_cambridge_bundle env = Inr a \<and> get_boston_bundle env = Inr b \<and>
    get_somerville_bundle env = Inr c \<longrightarrow> (\<exists>r. get_bundle env m = Inr r))"
  by (simp add: get_bundle_def get_all_metro_bundle_def Let_def)

theorem get_bundle_dispatch_witness:
  "''All'' \<noteq> ''Cambridge'' \<and> ''All'' \<noteq> ''Boston'' \<and> ''All'' \<noteq> ''Somerville'' \<and>
   get_bundle demo_env ''All'' = get_all_metro_bundle demo_env \<and>
   get_cambridge_bundle demo_env = Inr (projr (get_cambridge_bundle demo_env)) \<and>
   get_boston_bundle demo_env = Inr (projr (get_boston_bundle demo_env)) \<and>
   get_somerville_bundle demo_env = Inr (projr (get_somerville_bundle demo_env)) \<and>
   (\<exists>r. get_bundle demo_env ''All'' = Inr r) \<and>
   get_bundle demo_env ''Boston'' = get_boston_bundle demo_env"
proof -
  have a: "get_cambridge_bundle demo_env = Inr (projr (get_cambridge_bundle demo_env))"
    using demo_cambridge_ok by (rule not_isl_Inr)
  have b: "get_boston_bundle demo_env = Inr (projr (get_boston_bundle demo_env))"
    using demo_boston_ok by (rule not_isl_Inr)
  have c: "get_somerville_bundle demo_env = Inr (projr (get_somerville_bundle demo_env))"
    using demo_somerville_ok by (rule not_isl_Inr)
  have n: "''All'' \<noteq> ''Cambridge'' \<and> ''All'' \<noteq> ''Boston'' \<and> ''All'' \<noteq> ''Somerville''"
    by simp
  from get_bundle_dispatch [of demo_env "''All''" "projr (get_cambridge_bundle demo_env)"
      "projr (get_boston_bundle demo_env)" "projr (get_somerville_bundle demo_env)"] a b c n
  show ?thesis by blast
qed

text \<open>
  Claim C3. The crime frame of the combined bundle is the crime frame of Cambridge
  followed by that of Boston followed by that of Somerville, each as its loader
  returned it: its length is the sum of the three lengths and it holds the same
  records with the same multiplicities.
\<close>

theorem all_metro_crime_concat:
  assumes "get_all_metro_bundle env = Inr metro"
  shows "\<exists>cambridge boston somerville.
           get_cambridge_bundle env = Inr cambridge \<and>
           get_boston_bundle env = Inr boston \<and>
           get_somerville_bundle env = Inr somerville \<and>
           load_cambridge_crime env = Inr (crime cambridge) \<and>
           load_boston_crime env = Inr (crime boston) \<and>
           load_somerville_crime env = Inr (crime somerville) \<and>
           crime metro = crime cambridge @ crime boston @ crime somerville \<and>
           length (crime metro) =
             length (crime cambridge) + length (crime boston) + length (crime somerville) \<and>
           mset (crime metro) =
             mset (crime cambridge) + mset (crime boston) + mset (crime somerville)"
proof -
  from assms obtain cambridge boston somerville
    where c: "get_cambridge_bundle env = Inr cambridge"
      and b: "get_boston_bundle env = Inr boston"
      and s: "get_somerville_bundle env = Inr somerville"
      and m: "crime metro = crime cambridge @ crime boston @ crime somerville"
    by (auto simp: get_all_metro_bundle_def Let_def split: sum.splits)
  have "load_cambridge_crime env = Inr (crime cambridge)"
    using c by (auto simp: get_cambridge_bundle_def split: sum.splits)
  moreover have "load_boston_crime env = Inr (crime boston)"
    using b by (auto simp: get_boston_bundle_def split: sum.splits)
  moreover have "load_somerville_crime env = Inr (crime somerville)"
    using s by (auto simp: get_somerville_bundle_def split: sum.splits)
  moreover have "length (crime metro) =
      length (crime cambridge) + length (crime boston) + length (crime somerville)"
    by (simp add: m)
  moreover have "mset (crime metro) =
      mset (crime cambridge) + mset (crime boston) + mset (crime somerville)"
    by (simp add: m)
  ultimately show ?thesis
    using c b s m by blast
qed

lemma demo_all_metro_crime:
  "col ''Crime'' (crime (projr (get_all_metro_bundle demo_env))) =
     [Str ''Larceny from MV'', Str ''Larceny'', Str ''Fraud'', Str ''Assault'', Str ''Fraud'']"
  by (simp add: demo_eval)

theorem all_metro_crime_concat_witness:
  "get_all_metro_bundle demo_env = Inr (projr (get_all_metro_bundle demo_env)) \<and>
   (\<exists>cambridge boston somerville.
      get_cambridge_bundle demo_env = Inr cambridge \<and>
      get_boston_bundle demo_env = Inr boston \<and>
      get_somerville_bundle demo_env = Inr somerville \<and>
      crime (projr (get_all_metro_bundle demo_env)) =
        crime cambridge @ crime boston @ crime somerville \<and>
      length (crime (projr (get_all_metro_bundle demo_env))) =
        length (crime cambridge) + length (crime boston) + length (crime somerville)) \<and>
   col ''Crime'' (crime (projr (get_all_metro_bundle demo_env))) =
     [Str ''Larceny from MV'', Str ''Larceny'', Str ''Fraud'', Str ''Assault'', Str ''Fraud'']"
proof -
  have h: "get_all_metro_bundle demo_env = Inr (projr (get_all_metro_bundle demo_env))"
    using demo_all_metro_ok by (rule not_isl_Inr)
  from all_metro_crime_concat [OF h] h demo_all_metro_crime
  show ?thesis by blast
qed

text \<open>
  Claim C6, evaluated on the example: a region whose raw name the city's table does
  not map. \<open>load_boston_geo\<close> falls back to the raw name (\<open>fillna\<close>);
  \<open>load_cambridge_geo\<close> has no fallback and leaves the canonical name of \<open>Riverside\<close>
  missing.
\<close>

theorem geo_mapped_names:
  "map_sum id (col ''Mapped_Name'' \<circ> rows) (load_cambridge_geo demo_env) =
     Inr [Str ''Area 4'', NaN] \<and>
   map_sum id (col ''NAME'' \<circ> rows) (load_cambridge_geo demo_env) =
     Inr [Str ''Area Four'', Str ''Riverside''] \<and>
   CAMBRIDGE_NEIGHBORHOOD_NAME_MAP demo_env ''Riverside'' = None \<and>
   map_sum id (col ''Mapped_Name'' \<circ> rows) (load_boston_geo demo_env) =
     Inr [Str ''South Boston'', Str ''Allston''] \<and>
   map_sum id (col ''blockgr202'' \<circ> rows) (load_boston_geo demo_env) =
     Inr [Str ''South Boston Waterfront'', Str ''Allston''] \<and>
   BOSTON_NEIGHBORHOOD_NAME_MAP demo_env ''Allston'' = None"
  by (simp add: demo_eval)

section \<open>The spatial join and the dates of Somerville\<close>

lemma joined_neighborhoods_nonempty: "joined_neighborhoods env bs gs key \<noteq> []"
proof -
  let ?ms = "filter (\<lambda>b. b ''GEOID20'' = key) bs"
  show ?thesis
  proof (cases ?ms)
    case Nil
    then show ?thesis by (simp add: joined_neighborhoods_def)
  next
    case (Cons b ms)
    then show ?thesis by (simp add: joined_neighborhoods_def Let_def)
  qed
qed

lemma load_somerville_crime_records_of:
  assumes "load_somerville_crime env = Inr so"
  shows "so = concat (map (records_of env) (SOMERVILLE_CRIME_CSV env))"
proof -
  from assms obtain sb gf where sb: "somerville_blocks env = Inr sb"
    and gf: "load_somerville_geo env = Inr gf"
    and so: "so = concat (map (somerville_records env (rows sb) (rows gf))
                            (SOMERVILLE_CRIME_CSV env))"
    by (auto simp: load_somerville_crime_records split: sum.splits)
  have "records_of env = somerville_records env (rows sb) (rows gf)"
    by (rule ext) (simp add: records_of_def block_rows_def neighborhood_rows_def sb gf)
  with so show ?thesis by simp
qed

lemma records_of_nonempty: "records_of env r \<noteq> []"
  by (simp add: records_of_def somerville_records_def joined_neighborhoods_nonempty)

lemma records_of_Neighborhood:
  "col ''Neighborhood'' (records_of env r) =
     joined_neighborhoods env (block_rows env) (neighborhood_rows env) (block_key env r)"
  by (simp add: records_of_def somerville_records_def col_def crime_record_def o_def)

lemma records_of_fields:
  "list_all (\<lambda>x. x ''Date'' = somerville_date env r \<and>
                  x ''Crime'' = somerville_label env r \<and>
                  x ''Macro Crime'' = map_dict (SOMERVILLE_CRIME_MACROS env) (somerville_label env r))
     (records_of env r)"
  by (simp add: records_of_def somerville_records_def crime_record_def list_all_iff)

lemma concat_all_empty:
  "list_all (\<lambda>b. f b = []) ms \<Longrightarrow>
     concat (map (\<lambda>b. let ns = f b in if ns = [] then [d] else ns) ms) = map (\<lambda>b. d) ms"
  by (induction ms) simp_all

text \<open>
  Claim C4, as amended. When \<open>load_somerville_crime\<close> returns, its frame holds the
  records of every row of the crime table, row after row, and every row has at least
  one record: none is dropped. A row whose normalised block code is the \<open>GEOID20\<close> of no
  census block has exactly one record, with a missing neighborhood; a row all of whose
  matching blocks intersect no neighborhood polygon has records with a missing
  neighborhood only; a row with exactly one matching block, whose geometry intersects
  exactly one neighborhood polygon, has exactly one record, with the \<open>NBHD\<close> of that
  polygon.
\<close>

theorem somerville_spatial_join:
  assumes "load_somerville_crime env = Inr so"
  shows "so = concat (map (records_of env) (SOMERVILLE_CRIME_CSV env)) \<and>
         records_of env r \<noteq> [] \<and>
         (matching_blocks env r = [] \<longrightarrow> col ''Neighborhood'' (records_of env r) = [NaN]) \<and>
         (list_all (\<lambda>b. intersecting_neighborhoods env (neighborhood_rows env) (b ''geometry'') = [])
            (matching_blocks env r) \<longrightarrow>
            list_all (\<lambda>x. x ''Neighborhood'' = NaN) (records_of env r)) \<and>
         (\<forall>b n. matching_blocks env r = [b] \<and>
                intersecting_neighborhoods env (neighborhood_rows env) (b ''geometry'') = [n] \<longrightarrow>
                col ''Neighborhood'' (records_of env r) = [n])"
proof -
  let ?N = "col ''Neighborhood'' (records_of env r)"
  have n: "?N = (let ms = matching_blocks env r
                 in if ms = [] then [NaN]
                    else concat (map (\<lambda>b. let ns = intersecting_neighborhoods env
                                                     (neighborhood_rows env) (b ''geometry'')
                                           in if ns = [] then [NaN] else ns) ms))"
    by (simp add: records_of_Neighborhood joined_neighborhoods_def matching_blocks_def)
  have none: "?N = [NaN]" if "matching_blocks env r = []"
    using that by (simp add: n)
  have outside: "list_all (\<lambda>x. x ''Neighborhood'' = NaN) (records_of env r)"
    if h: "list_all (\<lambda>b. intersecting_neighborhoods env (neighborhood_rows env) (b ''geometry'') = [])
             (matching_blocks env r)"
  proof -
    have "concat (map (\<lambda>b. let ns = intersecting_neighborhoods env
                                      (neighborhood_rows env) (b ''geometry'')
                            in if ns = [] then [NaN] else ns) (matching_blocks env r))
          = map (\<lambda>b. NaN) (matching_blocks env r)"
      using h by (rule concat_all_empty)
    then have "set ?N \<subseteq> {NaN}"
      by (auto simp: n Let_def)
    then show ?thesis
      by (auto simp: col_def list_all_iff)
  qed
  have one: "?N = [n']"
    if "matching_blocks env r = [b]"
      and "intersecting_neighborhoods env (neighborhood_rows env) (b ''geometry'') = [n']" for b n'
    using that by (simp add: n)
  from load_somerville_crime_records_of [OF assms] records_of_nonempty none outside one
  show ?thesis by blast
qed

lemma demo_somerville_crime_ok: "\<not> isl (load_somerville_crime demo_env)"
  by (simp add: demo_eval)

lemma singleton_hd: "length xs = Suc 0 \<Longrightarrow> xs = [hd xs]"
  by (cases xs) simp_all

theorem somerville_spatial_join_witness:
  "load_somerville_crime demo_env = Inr (projr (load_somerville_crime demo_env)) \<and>
   col ''Block Code'' (SOMERVILLE_CRIME_CSV demo_env) = [Str ''1500.0'', Str ''99'', Str ''17''] \<and>
   matching_blocks demo_env (SOMERVILLE_CRIME_CSV demo_env ! 1) = [] \<and>
   col ''Neighborhood'' (records_of demo_env (SOMERVILLE_CRIME_CSV demo_env ! 1)) = [NaN] \<and>
   col ''GEOID20'' (matching_blocks demo_env (SOMERVILLE_CRIME_CSV demo_env ! 2)) = [Str ''17''] \<and>
   list_all (\<lambda>b. intersecting_neighborhoods demo_env (neighborhood_rows demo_env) (b ''geometry'') = [])
     (matching_blocks demo_env (SOMERVILLE_CRIME_CSV demo_env ! 2)) \<and>
   list_all (\<lambda>x. x ''Neighborhood'' = NaN) (records_of demo_env (SOMERVILLE_CRIME_CSV demo_env ! 2)) \<and>
   col ''GEOID20'' (matching_blocks demo_env (SOMERVILLE_CRIME_CSV demo_env ! 0)) = [Str ''15''] \<and>
   intersecting_neighborhoods demo_env (neighborhood_rows demo_env)
     (hd (matching_blocks demo_env (SOMERVILLE_CRIME_CSV demo_env ! 0)) ''geometry'')
     = [Str ''Spring Hill''] \<and>
   col ''Neighborhood'' (records_of demo_env (SOMERVILLE_CRIME_CSV demo_env ! 0))
     = [Str ''Spring Hill'']"
proof -
  let ?csv = "SOMERVILLE_CRIME_CSV demo_env"
  have ok: "load_somerville_crime demo_env = Inr (projr (load_somerville_crime demo_env))"
    using demo_somerville_crime_ok by (rule not_isl_Inr)
  have codes: "col ''Block Code'' ?csv = [Str ''1500.0'', Str ''99'', Str ''17'']"
    by (simp add: demo_env_def mk_row_def col_def)
  have m1: "matching_blocks demo_env (?csv ! 1) = []"
    by (simp add: demo_eval)
  have g2: "col ''GEOID20'' (matching_blocks demo_env (?csv ! 2)) = [Str ''17'']"
    by (simp add: demo_eval)
  have i2: "list_all (\<lambda>b. intersecting_neighborhoods demo_env (neighborhood_rows demo_env)
                             (b ''geometry'') = [])
              (matching_blocks demo_env (?csv ! 2))"
    by (simp add: demo_eval)
  have g0: "col ''GEOID20'' (matching_blocks demo_env (?csv ! 0)) = [Str ''15'']"
    by (simp add: demo_eval)
  have "length (col ''GEOID20'' (matching_blocks demo_env (?csv ! 0))) = Suc 0"
    by (simp only: g0) simp
  then have "length (matching_blocks demo_env (?csv ! 0)) = Suc 0"
    by (simp add: col_def)
  then have m0: "matching_blocks demo_env (?csv ! 0) = [hd (matching_blocks demo_env (?csv ! 0))]"
    by (rule singleton_hd)
  have i0: "intersecting_neighborhoods demo_env (neighborhood_rows demo_env)
              (hd (matching_blocks demo_env (?csv ! 0)) ''geometry'') = [Str ''Spring Hill'']"
    by (simp add: demo_eval)
  from somerville_spatial_join [OF ok, of "?csv ! 1"] m1
  have r1: "col ''Neighborhood'' (records_of demo_env (?csv ! 1)) = [NaN]"
    by blast
  from somerville_spatial_join [OF ok, of "?csv ! 2"] i2
  have r2: "list_all (\<lambda>x. x ''Neighborhood'' = NaN) (records_of demo_env (?csv ! 2))"
    by blast
  from somerville_spatial_join [OF ok, of "?csv ! 0"] m0 i0
  have r0: "col ''Neighborhood'' (records_of demo_env (?csv ! 0)) = [Str ''Spring Hill'']"
    by blast
  from ok codes m1 r1 g2 i2 r2 g0 i0 r0 show ?thesis
    by (intro conjI)
qed

text \<open>
  Claim C4 as stated fails for a block that lies within exactly one neighborhood
  polygon and touches a second one: the join predicate is \<open>intersects\<close>, so the one
  crime row comes back twice, once with each neighborhood.
\<close>

theorem somerville_spatial_join_counterexample:
  "col ''Block Code'' (SOMERVILLE_CRIME_CSV overlap_env) = [Str ''15''] \<and>
   col ''GEOID20'' (rows (MA_CENSUS_BLOCKS overlap_env)) = [Str ''15''] \<and>
   col ''geometry'' (rows (MA_CENSUS_BLOCKS overlap_env)) = [Geom [11, 12]] \<and>
   col ''NBHD'' (rows (SOMERVILLE_SHAPEFILE overlap_env))
     = [Str ''Spring Hill'', Str ''Winter Hill''] \<and>
   col ''geometry'' (rows (SOMERVILLE_SHAPEFILE overlap_env))
     = [Geom [10, 11, 12], Geom [12, 13, 14]] \<and>
   demo_within [11, 12] [10, 11, 12] \<and>
   \<not> demo_within [11, 12] [12, 13, 14] \<and>
   map_sum id (col ''Neighborhood'') (load_somerville_crime overlap_env)
     = Inr [Str ''Spring Hill'', Str ''Winter Hill'']"
  by (simp add: overlap_env_def demo_within_def demo_eval)


lemma load_somerville_crime_error:
  "(load_somerville_crime env = Inl e) =
     (somerville_blocks env = Inl e \<or>
      (\<exists>sb. somerville_blocks env = Inr sb) \<and> load_somerville_geo env = Inl e)"
  by (auto simp: load_somerville_crime_records split: sum.splits)







section \<open>Crime labels and macro categories\<close>


lemma load_somerville_crime_macro:
  assumes "load_somerville_crime env = Inr so"
  shows "col ''Macro Crime'' so = map (map_dict (SOMERVILLE_CRIME_MACROS env)) (col ''Crime'' so)"
proof -
  have "x ''Macro Crime'' = map_dict (SOMERVILLE_CRIME_MACROS env) (x ''Crime'')"
    if "x \<in> set so" for x
  proof -
    from that load_somerville_crime_records_of [OF assms]
    obtain r where "x \<in> set (records_of env r)" by auto
    with records_of_fields [of env r] show ?thesis by (auto simp: list_all_iff)
  qed
  then show ?thesis by (simp add: col_def)
qed

text \<open>
  Claim C5, as amended. No loader raises for a crime label or for the category table:
  \<open>load_cambridge_crime\<close> raises exactly what its date column raises,
  \<open>load_boston_crime\<close> that and the \<open>AttributeError\<close> of \<open>.str.title()\<close> on a label column
  without a text, \<open>load_somerville_crime\<close> what the reprojections raise. In every
  city's loader the macro category of a record is the entry of that city's table for
  the crime label the record carries, and a label the table does not map gives a
  missing category while the record stays. The label of a record of Boston and of
  Somerville is the raw label in title case; the label of a record of Cambridge is the
  raw label as it is, and it is looked up as it is.
\<close>

theorem macro_category_lookup:
  "(load_cambridge_crime (env :: 'g env) = Inl e) = (cambridge_dates env = Inl e) \<and>
   (load_boston_crime env = Inl e) =
     (boston_dates env = Inl e \<or>
      (\<exists>dates. boston_dates env = Inr dates) \<and> e = AttributeError \<and>
      BOSTON_CRIME_CSV env \<noteq> [] \<and> \<not> list_ex is_text (col ''Crime'' (BOSTON_CRIME_CSV env))) \<and>
   (load_somerville_crime env = Inl e) =
     (somerville_blocks env = Inl e \<or>
      (\<exists>sb. somerville_blocks env = Inr sb) \<and> load_somerville_geo env = Inl e) \<and>
   (load_cambridge_crime env = Inr ca \<longrightarrow>
      length ca = length (CAMBRIDGE_CRIME_CSV env) \<and>
      col ''Crime'' ca = col ''Crime'' (CAMBRIDGE_CRIME_CSV env) \<and>
      col ''Macro Crime'' ca = map (map_dict (CAMBRIDGE_CRIME_MACROS env)) (col ''Crime'' ca)) \<and>
   (load_boston_crime env = Inr bo \<longrightarrow>
      length bo = length (BOSTON_CRIME_CSV env) \<and>
      col ''Crime'' bo = map (str_op py_title) (col ''Crime'' (BOSTON_CRIME_CSV env)) \<and>
      col ''Macro Crime'' bo = map (map_dict (BOSTON_CRIME_MACROS env)) (col ''Crime'' bo)) \<and>
   (load_somerville_crime env = Inr so \<longrightarrow>
      so = concat (map (records_of env) (SOMERVILLE_CRIME_CSV env)) \<and>
      (\<forall>r. records_of env r \<noteq> [] \<and>
           list_all (\<lambda>x. x ''Crime'' = str_op py_title (astype_str env (r ''Offense Type'')))
             (records_of env r)) \<and>
      col ''Macro Crime'' so = map (map_dict (SOMERVILLE_CRIME_MACROS env)) (col ''Crime'' so)) \<and>
   map_dict table (Str label) =
     (case table label of Some category \<Rightarrow> Str category | None \<Rightarrow> (NaN :: 'g cell)) \<and>
   map_dict table NaN = (NaN :: 'g cell)"
proof -
  have c: "length ca = length (CAMBRIDGE_CRIME_CSV env) \<and>
      col ''Crime'' ca = col ''Crime'' (CAMBRIDGE_CRIME_CSV env) \<and>
      col ''Macro Crime'' ca = map (map_dict (CAMBRIDGE_CRIME_MACROS env)) (col ''Crime'' ca)"
    if "load_cambridge_crime env = Inr ca"
    using load_cambridge_crime_cols [OF that] by simp
  have b: "length bo = length (BOSTON_CRIME_CSV env) \<and>
      col ''Crime'' bo = map (str_op py_title) (col ''Crime'' (BOSTON_CRIME_CSV env)) \<and>
      col ''Macro Crime'' bo = map (map_dict (BOSTON_CRIME_MACROS env)) (col ''Crime'' bo)"
    if "load_boston_crime env = Inr bo"
    using load_boston_crime_cols [OF that] by simp
  have l: "records_of env r \<noteq> [] \<and>
           list_all (\<lambda>x. x ''Crime'' = str_op py_title (astype_str env (r ''Offense Type'')))
             (records_of env r)" for r
    using records_of_fields [of env r] records_of_nonempty [of env r]
    by (simp add: list_all_iff somerville_label_def)
  have s: "so = concat (map (records_of env) (SOMERVILLE_CRIME_CSV env)) \<and>
      (\<forall>r. records_of env r \<noteq> [] \<and>
           list_all (\<lambda>x. x ''Crime'' = str_op py_title (astype_str env (r ''Offense Type'')))
             (records_of env r)) \<and>
      col ''Macro Crime'' so = map (map_dict (SOMERVILLE_CRIME_MACROS env)) (col ''Crime'' so)"
    if "load_somerville_crime env = Inr so"
    using load_somerville_crime_records_of [OF that] load_somerville_crime_macro [OF that] l
    by blast
  have m: "map_dict table (Str label) =
             (case table label of Some category \<Rightarrow> Str category | None \<Rightarrow> (NaN :: 'g cell))"
    and n: "map_dict table NaN = (NaN :: 'g cell)"
    by (simp_all add: map_dict_def)
  from c have C: "load_cambridge_crime env = Inr ca \<longrightarrow>
      length ca = length (CAMBRIDGE_CRIME_CSV env) \<and>
      col ''Crime'' ca = col ''Crime'' (CAMBRIDGE_CRIME_CSV env) \<and>
      col ''Macro Crime'' ca = map (map_dict (CAMBRIDGE_CRIME_MACROS env)) (col ''Crime'' ca)"
    by (rule impI)
  from b have B: "load_boston_crime env = Inr bo \<longrightarrow>
      length bo = length (BOSTON_CRIME_CSV env) \<and>
      col ''Crime'' bo = map (str_op py_title) (col ''Crime'' (BOSTON_CRIME_CSV env)) \<and>
      col ''Macro Crime'' bo = map (map_dict (BOSTON_CRIME_MACROS env)) (col ''Crime'' bo)"
    by (rule impI)
  from s have S: "load_somerville_crime env = Inr so \<longrightarrow>
      so = concat (map (records_of env) (SOMERVILLE_CRIME_CSV env)) \<and>
      (\<forall>r. records_of env r \<noteq> [] \<and>
           list_all (\<lambda>x. x ''Crime'' = str_op py_title (astype_str env (r ''Offense Type'')))
             (records_of env r)) \<and>
      col ''Macro Crime'' so = map (map_dict (SOMERVILLE_CRIME_MACROS env)) (col ''Crime'' so)"
    by (rule impI)
  note ec = load_cambridge_crime_error [of env e]
  note eb = load_boston_crime_error [of env e]
  note es = load_somerville_crime_error [of env e]
  show ?thesis
    by (intro conjI; (rule ec eb es C B S m n))
qed

lemma demo_cambridge_crime_ok: "\<not> isl (load_cambridge_crime demo_env)"
  by (simp add: demo_eval)

lemma demo_boston_crime_ok: "\<not> isl (load_boston_crime demo_env)"
  by (simp add: demo_eval)

lemma boston_no_label_error: "load_boston_crime boston_no_label_env = Inl AttributeError"
  by (simp add: boston_no_label_env_def demo_eval)

theorem macro_category_lookup_witness:
  "load_cambridge_crime demo_env = Inr (projr (load_cambridge_crime demo_env)) \<and>
   load_boston_crime demo_env = Inr (projr (load_boston_crime demo_env)) \<and>
   load_somerville_crime demo_env = Inr (projr (load_somerville_crime demo_env)) \<and>
   col ''Macro Crime'' (projr (load_cambridge_crime demo_env)) =
     map (map_dict (CAMBRIDGE_CRIME_MACROS demo_env)) (col ''Crime'' (projr (load_cambridge_crime demo_env))) \<and>
   col ''Crime'' (projr (load_cambridge_crime demo_env)) = [Str ''Larceny from MV''] \<and>
   col ''Macro Crime'' (projr (load_cambridge_crime demo_env)) = [Str ''Property''] \<and>
   col ''Crime'' (BOSTON_CRIME_CSV demo_env) = [Str ''LARCENY''] \<and>
   col ''Crime'' (projr (load_boston_crime demo_env)) = [Str ''Larceny''] \<and>
   col ''Macro Crime'' (projr (load_boston_crime demo_env)) = [Str ''Property''] \<and>
   col ''Offense Type'' (SOMERVILLE_CRIME_CSV demo_env) = [Str ''FRAUD'', Str ''assault'', Str ''Fraud''] \<and>
   col ''Crime'' (projr (load_somerville_crime demo_env)) = [Str ''Fraud'', Str ''Assault'', Str ''Fraud''] \<and>
   col ''Macro Crime'' (projr (load_somerville_crime demo_env)) = [Str ''Financial'', NaN, Str ''Financial''] \<and>
   SOMERVILLE_CRIME_MACROS demo_env ''Assault'' = None \<and>
   cambridge_dates demo_env = Inr [Date (YMD 2021 3 15)] \<and>
   boston_dates demo_env = Inr [Date (YMD 2021 3 15)] \<and>
   col ''Crime'' (BOSTON_CRIME_CSV boston_no_label_env) = [NaN] \<and>
   load_boston_crime boston_no_label_env = Inl AttributeError"
proof -
  have c: "load_cambridge_crime demo_env = Inr (projr (load_cambridge_crime demo_env))"
    using demo_cambridge_crime_ok by (rule not_isl_Inr)
  have b: "load_boston_crime demo_env = Inr (projr (load_boston_crime demo_env))"
    using demo_boston_crime_ok by (rule not_isl_Inr)
  have s: "load_somerville_crime demo_env = Inr (projr (load_somerville_crime demo_env))"
    using demo_somerville_crime_ok by (rule not_isl_Inr)
  from macro_category_lookup [where env = demo_env
      and ca = "projr (load_cambridge_crime demo_env)"] c
  have m: "col ''Macro Crime'' (projr (load_cambridge_crime demo_env)) =
     map (map_dict (CAMBRIDGE_CRIME_MACROS demo_env)) (col ''Crime'' (projr (load_cambridge_crime demo_env)))"
    by blast
  have e: "col ''Crime'' (projr (load_cambridge_crime demo_env)) = [Str ''Larceny from MV'']"
    "col ''Macro Crime'' (projr (load_cambridge_crime demo_env)) = [Str ''Property'']"
    "col ''Crime'' (BOSTON_CRIME_CSV demo_env) = [Str ''LARCENY'']"
    "col ''Crime'' (projr (load_boston_crime demo_env)) = [Str ''Larceny'']"
    "col ''Macro Crime'' (projr (load_boston_crime demo_env)) = [Str ''Property'']"
    "col ''Offense Type'' (SOMERVILLE_CRIME_CSV demo_env) = [Str ''FRAUD'', Str ''assault'', Str ''Fraud'']"
    "col ''Crime'' (projr (load_somerville_crime demo_env)) = [Str ''Fraud'', Str ''Assault'', Str ''Fraud'']"
    "col ''Macro Crime'' (projr (load_somerville_crime demo_env)) = [Str ''Financial'', NaN, Str ''Financial'']"
    "SOMERVILLE_CRIME_MACROS demo_env ''Assault'' = None"
    "cambridge_dates demo_env = Inr [Date (YMD 2021 3 15)]"
    "boston_dates demo_env = Inr [Date (YMD 2021 3 15)]"
    by (simp_all add: demo_eval cambridge_dates_def boston_dates_def)
  have n: "col ''Crime'' (BOSTON_CRIME_CSV boston_no_label_env) = [NaN]"
    by (simp add: boston_no_label_env_def demo_env_def mk_row_def col_def)
  from c b s m e n boston_no_label_error show ?thesis
    by (intro conjI)
qed

text \<open>
  Claim C5 as stated fails for Cambridge: \<open>load_cambridge_crime\<close> looks the raw label
  up. The label \<open>larceny\<close> has no category although the table maps its title case.
\<close>

theorem macro_category_lookup_counterexample:
  "col ''Crime'' (CAMBRIDGE_CRIME_CSV lower_case_env) = [Str ''larceny''] \<and>
   py_title ''larceny'' = ''Larceny'' \<and>
   CAMBRIDGE_CRIME_MACROS lower_case_env ''Larceny'' = Some ''Property'' \<and>
   CAMBRIDGE_CRIME_MACROS lower_case_env ''larceny'' = None \<and>
   map_sum id (col ''Crime'') (load_cambridge_crime lower_case_env) = Inr [Str ''larceny''] \<and>
   map_sum id (col ''Macro Crime'') (load_cambridge_crime lower_case_env) = Inr [NaN]"
proof -
  have "py_title ''larceny'' = ''Larceny''"
    by code_simp
  then show ?thesis
    by (simp add: lower_case_env_def demo_eval)
qed






end
